theory Spec2Isabelle
  imports Complex_Main
begin

section \<open>JavaScript strings\<close>

text \<open>
  A string of the model is a JavaScript string all of whose UTF-16 code units are below 256
  (Latin-1): a HOL \<^typ>\<open>string\<close>, one \<^typ>\<open>char\<close> per code unit. On such strings
  \<^verbatim>\<open>toLowerCase\<close> lowers \<^verbatim>\<open>A-Z\<close> and the Latin-1 capitals \<^verbatim>\<open>0xC0-0xDE\<close>
  (not the multiplication sign \<^verbatim>\<open>0xD7\<close>); \<^verbatim>\<open>trim\<close> and the regular expression
  class \<^verbatim>\<open>\s\<close> take tab, line feed, vertical tab, form feed, carriage return, space
  and the no-break space \<^verbatim>\<open>0xA0\<close>; the classes \<^verbatim>\<open>[A-Z]\<close>, \<^verbatim>\<open>[a-zA-Z]\<close> and
  \<^verbatim>\<open>\w\<close> are those of ASCII. The value \<^verbatim>\<open>undefined\<close> of a string-typed expression
  is \<^term>\<open>None\<close>.
\<close>

definition upperLetters :: string where
  "upperLetters = ''ABCDEFGHIJKLMNOPQRSTUVWXYZ''"

definition lowerLetters :: string where
  "lowerLetters = ''abcdefghijklmnopqrstuvwxyz''"

definition digits :: string where
  "digits = ''0123456789''"

definition latin1Capitals :: string where
  "latin1Capitals =
     [CHR 0xC0, CHR 0xC1, CHR 0xC2, CHR 0xC3, CHR 0xC4, CHR 0xC5, CHR 0xC6, CHR 0xC7,
      CHR 0xC8, CHR 0xC9, CHR 0xCA, CHR 0xCB, CHR 0xCC, CHR 0xCD, CHR 0xCE, CHR 0xCF,
      CHR 0xD0, CHR 0xD1, CHR 0xD2, CHR 0xD3, CHR 0xD4, CHR 0xD5, CHR 0xD6,
      CHR 0xD8, CHR 0xD9, CHR 0xDA, CHR 0xDB, CHR 0xDC, CHR 0xDD, CHR 0xDE]"

definition latin1Smalls :: string where
  "latin1Smalls =
     [CHR 0xE0, CHR 0xE1, CHR 0xE2, CHR 0xE3, CHR 0xE4, CHR 0xE5, CHR 0xE6, CHR 0xE7,
      CHR 0xE8, CHR 0xE9, CHR 0xEA, CHR 0xEB, CHR 0xEC, CHR 0xED, CHR 0xEE, CHR 0xEF,
      CHR 0xF0, CHR 0xF1, CHR 0xF2, CHR 0xF3, CHR 0xF4, CHR 0xF5, CHR 0xF6,
      CHR 0xF8, CHR 0xF9, CHR 0xFA, CHR 0xFB, CHR 0xFC, CHR 0xFD, CHR 0xFE]"

definition toLowerCaseChar :: "char \<Rightarrow> char" where
  "toLowerCaseChar c =
     (case map_of (zip (upperLetters @ latin1Capitals) (lowerLetters @ latin1Smalls)) c of
        Some l \<Rightarrow> l
      | None \<Rightarrow> c)"

definition toLowerCase :: "string \<Rightarrow> string" where
  "toLowerCase s = map toLowerCaseChar s"

text \<open>
  \<^verbatim>\<open>toUpperCase\<close> of a string of one character: the sharp s \<^verbatim>\<open>0xDF\<close> becomes
  \<^verbatim>\<open>SS\<close>. The capitals of the micro sign \<^verbatim>\<open>0xB5\<close> and of \<^verbatim>\<open>0xFF\<close> are code
  units above 255, which a string of the model cannot hold: the model keeps these two
  characters, and says nothing of the first character of a title that begins with one
  of them.
\<close>

definition toUpperCaseChar :: "char \<Rightarrow> string" where
  "toUpperCaseChar c =
     (if c = CHR 0xDF then ''SS''
      else (case map_of (zip (lowerLetters @ latin1Smalls) (upperLetters @ latin1Capitals)) c of
              Some u \<Rightarrow> [u]
            | None \<Rightarrow> [c]))"

definition isUpper :: "char \<Rightarrow> bool" where
  "isUpper c = (c \<in> set upperLetters)"

definition isLetter :: "char \<Rightarrow> bool" where
  "isLetter c = (c \<in> set lowerLetters \<or> c \<in> set upperLetters)"

definition isWordChar :: "char \<Rightarrow> bool" where
  "isWordChar c = (isLetter c \<or> c \<in> set digits \<or> c = CHR ''_'')"

text \<open>Tab, line feed, vertical tab, form feed, carriage return, space and no-break
  space: the white space and line terminators of JavaScript below 256.\<close>

definition isSpace :: "char \<Rightarrow> bool" where
  "isSpace c =
     (c \<in> set [CHR 0x09, CHR 0x0A, CHR 0x0B, CHR 0x0C, CHR 0x0D, CHR '' '', CHR 0xA0])"

text \<open>\<^verbatim>\<open>s.startsWith(p)\<close> and \<^verbatim>\<open>s.includes(p)\<close>: \<open>p\<close> occurs in \<open>s\<close> as a
  contiguous run of characters.\<close>

fun startsWith :: "string \<Rightarrow> string \<Rightarrow> bool" where
  "startsWith s [] = True"
| "startsWith [] (p # ps) = False"
| "startsWith (c # cs) (p # ps) = (c = p \<and> startsWith cs ps)"

fun includesStr :: "string \<Rightarrow> string \<Rightarrow> bool" where
  "includesStr [] p = (p = [])"
| "includesStr (c # cs) p = (startsWith (c # cs) p \<or> includesStr cs p)"

definition trim :: "string \<Rightarrow> string" where
  "trim s = rev (dropWhile isSpace (rev (dropWhile isSpace s)))"

text \<open>\<^verbatim>\<open>s.split(' ')\<close>: the pieces between the separators, empty pieces kept; the
  empty string splits into one empty piece.\<close>

fun splitOn :: "char \<Rightarrow> string \<Rightarrow> string list" where
  "splitOn d [] = [[]]"
| "splitOn d (c # cs) =
     (if c = d then [] # splitOn d cs
      else (case splitOn d cs of [] \<Rightarrow> [[c]] | w # ws \<Rightarrow> (c # w) # ws))"

fun join :: "string \<Rightarrow> string list \<Rightarrow> string" where
  "join sep [] = []"
| "join sep [w] = w"
| "join sep (w # v # ws) = w @ sep @ join sep (v # ws)"

text \<open>\<^verbatim>\<open>t.charAt(0).toUpperCase() + t.slice(1)\<close>\<close>

definition capitalize :: "string \<Rightarrow> string" where
  "capitalize t = (case t of [] \<Rightarrow> [] | c # cs \<Rightarrow> toUpperCaseChar c @ cs)"

section \<open>Random template selection\<close>

text \<open>
  \<^verbatim>\<open>xs[Math.floor(Math.random() * xs.length)]\<close>, in IEEE 754 double arithmetic.

  \<^verbatim>\<open>Math.random()\<close> returns a double \<open>x\<close> with \<open>0 \<le> x < 1\<close>. Every such double is
  \<open>m / 2 ^ k\<close> for an integer \<open>0 \<le> m < 2 ^ 53\<close> (the significand) and a natural number
  \<open>k \<le> 1074\<close> with \<open>m < 2 ^ k\<close>, and every such quotient is a double: \<open>Sample m k\<close>.
\<close>

datatype sample = Sample (significand: int) (shift: nat)

definition isSample :: "sample \<Rightarrow> bool" where
  "isSample x =
     (0 \<le> significand x \<and> significand x < 2 ^ 53 \<and> shift x \<le> 1074
      \<and> significand x < 2 ^ shift x)"

definition sampleValue :: "sample \<Rightarrow> real" where
  "sampleValue x = real_of_int (significand x) / 2 ^ shift x"

text \<open>The number of binary digits of a positive integer.\<close>

function bitLength :: "int \<Rightarrow> nat" where
  "bitLength a = (if a \<le> 0 then 0 else Suc (bitLength (a div 2)))"
  by pat_completeness auto
termination
  by (relation "measure nat") auto

declare bitLength.simps [simp del]

text \<open>
  \<open>roundToEven a s\<close> is the multiple of \<open>2 ^ s\<close> nearest to \<open>a\<close>, counted in units
  of \<open>2 ^ s\<close>; of two nearest multiples it is the even one.
\<close>

definition roundToEven :: "int \<Rightarrow> nat \<Rightarrow> int" where
  "roundToEven a s =
     (let q = a div 2 ^ s; r = a mod 2 ^ s; half = 2 ^ (s - 1)
      in if r < half then q
         else if half < r then q + 1
         else if even q then q else q + 1)"

text \<open>
  The product \<open>x * n\<close> of a sample \<open>m / 2 ^ k\<close> and an array length \<open>n\<close> is the double
  nearest to \<open>(m * n) / 2 ^ k\<close>, ties to even. \<open>roundSignificand a\<close> rounds the numerator
  \<open>a = m * n\<close>: a number below \<open>2 ^ 53\<close> is a significand as it is; a longer one is rounded
  to its leading 53 binary digits. (The exponent stays in range: the shift does not grow,
  and the product is below \<open>n\<close>.)
\<close>

definition roundSignificand :: "int \<Rightarrow> int" where
  "roundSignificand a =
     (if a < 2 ^ 53 then a
      else roundToEven a (bitLength a - 53) * 2 ^ (bitLength a - 53))"

text \<open>\<^verbatim>\<open>Math.floor(x * n)\<close>: the integer part of the rounded product.\<close>

definition randomIndex :: "sample \<Rightarrow> nat \<Rightarrow> int" where
  "randomIndex x n = roundSignificand (significand x * int n) div 2 ^ shift x"

text \<open>Reading an array outside its bounds yields \<^verbatim>\<open>undefined\<close>.\<close>

definition element :: "'a list \<Rightarrow> int \<Rightarrow> 'a option" where
  "element xs i = (if 0 \<le> i \<and> i < int (length xs) then Some (xs ! nat i) else None)"

definition pick :: "sample \<Rightarrow> 'a list \<Rightarrow> 'a option" where
  "pick rnd xs = element xs (randomIndex rnd (length xs))"

section \<open>Chat titles (frontend/src/utils/chatTitles.ts)\<close>

subsection \<open>Title templates\<close>

datatype topic = market_research | competitor_analysis | business_strategy | startup | marketing

definition market_research_titles :: "string list" where
  "market_research_titles =
     [''Market Analysis'', ''Industry Research'', ''Market Trends'', ''Market Insights'',
      ''Industry Overview'']"

definition competitor_analysis_titles :: "string list" where
  "competitor_analysis_titles =
     [''Competitor Analysis'', ''Competitive Intelligence'', ''Competition Research'',
      ''Market Competition'', ''Competitor Insights'']"

definition business_strategy_titles :: "string list" where
  "business_strategy_titles =
     [''Business Strategy'', ''Strategic Planning'', ''Growth Strategy'', ''Business Planning'',
      ''Strategic Analysis'']"

definition general_business :: "string list" where
  "general_business =
     [''Business Discussion'', ''Business Consultation'', ''Strategic Advice'',
      ''Business Insights'', ''Business Planning'']"

definition industry_specific :: "(string \<times> string list) list" where
  "industry_specific =
     [(''technology'', [''Tech Strategy'', ''Technology Analysis'', ''Tech Market Research'']),
      (''healthcare'', [''Healthcare Strategy'', ''Medical Industry Analysis'',
                        ''Healthcare Insights'']),
      (''finance'', [''Financial Strategy'', ''Fintech Analysis'', ''Financial Planning'']),
      (''retail'', [''Retail Strategy'', ''E-commerce Analysis'', ''Retail Insights'']),
      (''manufacturing'', [''Manufacturing Strategy'', ''Industrial Analysis'',
                           ''Production Planning'']),
      (''education'', [''EdTech Strategy'', ''Education Analysis'', ''Learning Solutions'']),
      (''consulting'', [''Consulting Strategy'', ''Professional Services'',
                        ''Advisory Planning''])]"

text \<open>
  \<^verbatim>\<open>titleTemplates[primaryTopic]\<close>: the object \<^verbatim>\<open>titleTemplates\<close> has an array
  under the keys \<^verbatim>\<open>market_research\<close>, \<^verbatim>\<open>competitor_analysis\<close>,
  \<^verbatim>\<open>business_strategy\<close> and \<^verbatim>\<open>general_business\<close>, and no entry for
  \<^verbatim>\<open>startup\<close> and \<^verbatim>\<open>marketing\<close>: there the lookup is \<^verbatim>\<open>undefined\<close>
  and \<^verbatim>\<open>Array.isArray\<close> is false.
\<close>

fun titleTemplates :: "topic \<Rightarrow> string list option" where
  "titleTemplates market_research = Some market_research_titles"
| "titleTemplates competitor_analysis = Some competitor_analysis_titles"
| "titleTemplates business_strategy = Some business_strategy_titles"
| "titleTemplates startup = None"
| "titleTemplates marketing = None"

text \<open>
  \<^verbatim>\<open>titleTemplates.industry_specific[industry]\<close> reads a property of an object literal
  under a key computed from the input. Besides its own seven properties the literal
  inherits those of \<^verbatim>\<open>Object.prototype\<close>; an inherited property is a function or
  (for \<^verbatim>\<open>__proto__\<close>) the prototype object: truthy, and no array of titles.
\<close>

definition objectPrototypeProperties :: "string list" where
  "objectPrototypeProperties =
     [''constructor'', ''__proto__'', ''hasOwnProperty'', ''isPrototypeOf'',
      ''propertyIsEnumerable'', ''toLocaleString'', ''toString'', ''valueOf'',
      ''__defineGetter__'', ''__defineSetter__'', ''__lookupGetter__'', ''__lookupSetter__'']"

datatype 'a property = Own 'a | Inherited | Undefined

definition getProperty :: "(string \<times> 'a) list \<Rightarrow> string \<Rightarrow> 'a property" where
  "getProperty obj key =
     (case map_of obj key of
        Some v \<Rightarrow> Own v
      | None \<Rightarrow> if key \<in> set objectPrototypeProperties then Inherited else Undefined)"

subsection \<open>extractTopics\<close>

definition extractTopics :: "string \<Rightarrow> topic list" where
  "extractTopics message =
     (let lowerMessage = toLowerCase message in
        (if includesStr lowerMessage ''market'' \<or> includesStr lowerMessage ''industry''
         then [market_research] else [])
      @ (if includesStr lowerMessage ''competitor'' \<or> includesStr lowerMessage ''competition''
         then [competitor_analysis] else [])
      @ (if includesStr lowerMessage ''strategy'' \<or> includesStr lowerMessage ''plan''
         then [business_strategy] else [])
      @ (if includesStr lowerMessage ''startup'' \<or> includesStr lowerMessage ''launch''
         then [startup] else [])
      @ (if includesStr lowerMessage ''marketing'' \<or> includesStr lowerMessage ''brand''
         then [marketing] else []))"

subsection \<open>extractIndustry\<close>

record businessContext =
  company :: "string option"
  industry :: "string option"
  business_type :: "string option"
  company_size :: "string option"

definition industries :: "string list" where
  "industries =
     [''technology'', ''tech'', ''software'', ''saas'',
      ''healthcare'', ''medical'', ''health'',
      ''finance'', ''financial'', ''fintech'', ''banking'',
      ''retail'', ''e-commerce'', ''ecommerce'',
      ''manufacturing'', ''industrial'',
      ''education'', ''edtech'',
      ''consulting'', ''professional services'',
      ''real estate'', ''construction'',
      ''hospitality'', ''travel'',
      ''energy'', ''renewable'']"

text \<open>The body of the loop over \<^verbatim>\<open>industries\<close>, for a keyword the message includes.\<close>

definition normalizeIndustry :: "string \<Rightarrow> string" where
  "normalizeIndustry keyword =
     (if keyword = ''tech'' \<or> keyword = ''software'' \<or> keyword = ''saas'' then ''technology''
      else if keyword = ''medical'' \<or> keyword = ''health'' then ''healthcare''
      else if keyword = ''financial'' \<or> keyword = ''fintech'' \<or> keyword = ''banking''
        then ''finance''
      else if keyword = ''e-commerce'' \<or> keyword = ''ecommerce'' then ''retail''
      else if keyword = ''industrial'' then ''manufacturing''
      else if keyword = ''edtech'' then ''education''
      else if keyword = ''professional services'' then ''consulting''
      else keyword)"

fun industryLoop :: "string \<Rightarrow> string list \<Rightarrow> string option" where
  "industryLoop lowerMessage [] = None"
| "industryLoop lowerMessage (keyword # rest) =
     (if includesStr lowerMessage keyword then Some (normalizeIndustry keyword)
      else industryLoop lowerMessage rest)"

text \<open>\<^verbatim>\<open>businessContext?.industry\<close> is truthy for a non-empty string only.\<close>

definition contextIndustry :: "businessContext option \<Rightarrow> string option" where
  "contextIndustry businessContext =
     (case businessContext of
        None \<Rightarrow> None
      | Some ctx \<Rightarrow> (case industry ctx of None \<Rightarrow> None
                     | Some i \<Rightarrow> if i = [] then None else Some i))"

definition extractIndustry :: "string \<Rightarrow> businessContext option \<Rightarrow> string option" where
  "extractIndustry message businessContext =
     (let lowerMessage = toLowerCase message in
      case contextIndustry businessContext of
        Some i \<Rightarrow> Some (toLowerCase i)
      | None \<Rightarrow> industryLoop lowerMessage industries)"

subsection \<open>The company-name pattern\<close>

text \<open>
  \<^verbatim>\<open>firstMessage.match(/\b([A-Z][a-zA-Z]+(?:\s+[A-Z][a-zA-Z]+)*)\b/g)\<close>, of which the
  code reads the first match: the leftmost position where the pattern matches, and there
  the longest the greedy quantifiers reach. A word is a capital followed by one or more
  letters, taken up to the end of the run of letters (a shorter word would end between two
  letters, where neither \<^verbatim>\<open>\b\<close> nor \<^verbatim>\<open>\s\<close> matches).

  \<open>wordsExtension rest\<close> matches \<^verbatim>\<open>(?:\s+[A-Z][a-zA-Z]+)*\b\<close> at the text after a
  word: one more word when that leads to a match, otherwise nothing when a word boundary
  follows.
\<close>

definition boundaryAfterWord :: "string \<Rightarrow> bool" where
  "boundaryAfterWord rest = (case rest of [] \<Rightarrow> True | c # cs \<Rightarrow> \<not> isWordChar c)"

function wordsExtension :: "string \<Rightarrow> string option" where
  "wordsExtension rest =
     (case (case dropWhile isSpace rest of
              [] \<Rightarrow> None
            | c # cs \<Rightarrow>
                if takeWhile isSpace rest = [] then None
                else if isUpper c \<and> takeWhile isLetter cs \<noteq> []
                then map_option (\<lambda>more. takeWhile isSpace rest @ c # takeWhile isLetter cs @ more)
                       (wordsExtension (dropWhile isLetter cs))
                else None) of
        Some matched \<Rightarrow> Some matched
      | None \<Rightarrow> if boundaryAfterWord rest then Some [] else None)"
  by pat_completeness auto
termination
proof (relation "measure length")
  show "wf (measure length)" by simp
next
  fix rest :: string and c cs
  assume "dropWhile isSpace rest = c # cs"
  then have "length cs < length rest"
    using length_dropWhile_le [of isSpace rest] by simp
  moreover have "length (dropWhile isLetter cs) \<le> length cs"
    by (rule length_dropWhile_le)
  ultimately show "(dropWhile isLetter cs, rest) \<in> measure length" by simp
qed

text \<open>The pattern at one position; \<open>prev\<close> is the character before it, if any.\<close>

definition companyMatchAt :: "char option \<Rightarrow> string \<Rightarrow> string option" where
  "companyMatchAt prev s =
     (case s of
        [] \<Rightarrow> None
      | c # cs \<Rightarrow>
          if isUpper c \<and> (case prev of None \<Rightarrow> True | Some p \<Rightarrow> \<not> isWordChar p)
             \<and> takeWhile isLetter cs \<noteq> []
          then map_option (\<lambda>more. c # takeWhile isLetter cs @ more)
                 (wordsExtension (dropWhile isLetter cs))
          else None)"

fun firstCompanyMatch :: "char option \<Rightarrow> string \<Rightarrow> string option" where
  "firstCompanyMatch prev [] = None"
| "firstCompanyMatch prev (c # cs) =
     (case companyMatchAt prev (c # cs) of
        Some m \<Rightarrow> Some m
      | None \<Rightarrow> firstCompanyMatch (Some c) cs)"

definition companyMatch :: "string \<Rightarrow> string option" where
  "companyMatch firstMessage = firstCompanyMatch None firstMessage"

subsection \<open>generateSmartChatTitle\<close>

text \<open>The end of the function: the company name, or the general business templates.\<close>

definition companyTitle :: "sample \<Rightarrow> string \<Rightarrow> topic list \<Rightarrow> string option" where
  "companyTitle rnd firstMessage topics =
     (case companyMatch firstMessage of
        Some companyName \<Rightarrow>
          if competitor_analysis \<in> set topics then Some (companyName @ '' Analysis'')
          else if market_research \<in> set topics then Some (companyName @ '' Market Research'')
          else Some (companyName @ '' Strategy'')
      | None \<Rightarrow> pick rnd general_business)"

text \<open>The topic-based templates, falling through when there is no topic or the primary
  topic has no array of templates.\<close>

definition topicTitle :: "sample \<Rightarrow> string \<Rightarrow> topic list \<Rightarrow> string option" where
  "topicTitle rnd firstMessage topics =
     (case topics of
        [] \<Rightarrow> companyTitle rnd firstMessage topics
      | primaryTopic # others \<Rightarrow>
          (case titleTemplates primaryTopic of
             Some templates \<Rightarrow> pick rnd templates
           | None \<Rightarrow> companyTitle rnd firstMessage topics))"

text \<open>
  \<^verbatim>\<open>industry && titleTemplates.industry_specific[industry]\<close>: a non-empty industry
  whose property is truthy. For an inherited property, the element read from it under the
  drawn index is \<^verbatim>\<open>undefined\<close>.
\<close>

definition generateSmartChatTitle ::
  "sample \<Rightarrow> string \<Rightarrow> businessContext option \<Rightarrow> string option" where
  "generateSmartChatTitle rnd firstMessage businessContext =
     (let topics = extractTopics firstMessage;
          industry = extractIndustry firstMessage businessContext
      in case industry of
           None \<Rightarrow> topicTitle rnd firstMessage topics
         | Some i \<Rightarrow>
             if i = [] then topicTitle rnd firstMessage topics
             else (case getProperty industry_specific i of
                     Own industryTemplates \<Rightarrow> pick rnd industryTemplates
                   | Inherited \<Rightarrow> None
                   | Undefined \<Rightarrow> topicTitle rnd firstMessage topics))"

subsection \<open>generateTitleFromContent\<close>

definition stopWords :: "string list" where
  "stopWords = [''what'', ''how'', ''when'', ''where'', ''why'', ''the'', ''and'', ''but'',
                ''for'', ''with'']"

definition significantWords :: "string \<Rightarrow> string list" where
  "significantWords message =
     filter (\<lambda>word. length word > 3 \<and> toLowerCase word \<notin> set stopWords)
       (splitOn CHR '' '' message)"

definition generateTitleFromContent :: "sample \<Rightarrow> string \<Rightarrow> string option" where
  "generateTitleFromContent rnd message =
     (let lowerMessage = toLowerCase message;
          words = significantWords message
      in if includesStr lowerMessage ''what'' \<and> includesStr lowerMessage ''trend''
           then Some ''Market Trends Analysis''
         else if includesStr lowerMessage ''who'' \<and> includesStr lowerMessage ''competitor''
           then Some ''Competitor Identification''
         else if includesStr lowerMessage ''how'' \<and> includesStr lowerMessage ''grow''
           then Some ''Growth Strategy''
         else if includesStr lowerMessage ''analyze'' \<and> includesStr lowerMessage ''market''
           then Some ''Market Analysis''
         else if includesStr lowerMessage ''business plan''
           then Some ''Business Planning''
         else if includesStr lowerMessage ''go-to-market'' \<or> includesStr lowerMessage ''gtm''
           then Some ''Go-to-Market Strategy''
         else if includesStr lowerMessage ''pricing''
           then Some ''Pricing Strategy''
         else if includesStr lowerMessage ''customer''
           then Some ''Customer Strategy''
         else if includesStr lowerMessage ''revenue''
           then Some ''Revenue Strategy''
         else if includesStr lowerMessage ''funding'' \<or> includesStr lowerMessage ''investment''
           then Some ''Funding Strategy''
         else if length words \<ge> 2
           then Some (capitalize (join '' '' (take 3 words)))
         else generateSmartChatTitle rnd message None)"

subsection \<open>getRandomCreativeTitle\<close>

definition creativeTitles :: "string list" where
  "creativeTitles =
     [''Business Insights Session'',
      ''Strategic Planning Chat'',
      ''Market Intelligence Brief'',
      ''Competitive Analysis Deep Dive'',
      ''Growth Strategy Workshop'',
      ''Business Intelligence Consultation'',
      ''Strategic Advisory Session'',
      ''Market Research Discussion'',
      ''Business Development Chat'',
      ''Innovation Strategy Talk'',
      ''Digital Transformation Planning'',
      ''Revenue Optimization Session'',
      ''Customer Strategy Workshop'',
      ''Operational Excellence Planning'',
      ''Investment Strategy Discussion'']"

definition getRandomCreativeTitle :: "sample \<Rightarrow> string option" where
  "getRandomCreativeTitle rnd = pick rnd creativeTitles"

section \<open>Asynchronous handlers\<close>

text \<open>
  A handler is run to its end before the next one starts. Its outcome is the list of
  requests it made to the backend, in order, and either the error it threw to its caller
  (\<^term>\<open>Inl\<close>) or the state it left (\<^term>\<open>Inr\<close>). A request that the backend rejects
  is still in the list.
\<close>

datatype js_error = JsError string

datatype role = UserRole | AssistantRole | SystemRole

record ChatMessageType =
  message_ident :: int
  content :: "string option"
  role :: role
  created_at :: string
  tools_used :: "string list option"

record ChatSession =
  session_ident :: int
  session_name :: "string option"
  message_count :: nat
  updated_at :: string

record User =
  company_name :: "string option"
  user_industry :: "string option"
  user_business_type :: "string option"
  user_company_size :: "string option"

record sendMessageRequest =
  message :: string
  session_id :: "int option"
  business_context :: businessContext

text \<open>What the properties \<^verbatim>\<open>response\<close> and \<^verbatim>\<open>tools_used\<close> of a resolved answer
  read; a property the answer does not have reads \<^verbatim>\<open>undefined\<close>.\<close>

record sendMessageResponse =
  response :: "string option"
  response_tools_used :: "string list option"

datatype call =
    CreateSession "string option"
  | UpdateSession int "string option"
  | SendMessage sendMessageRequest

type_synonym 'a outcome = "call list \<times> (js_error + 'a)"

definition andThen :: "'a outcome \<Rightarrow> ('a \<Rightarrow> 'b outcome) \<Rightarrow> 'b outcome" where
  "andThen first rest =
     (case first of
        (calls, Inl error) \<Rightarrow> (calls, Inl error)
      | (calls, Inr v) \<Rightarrow> (case rest v of (calls', r) \<Rightarrow> (calls @ calls', r)))"

text \<open>\<^verbatim>\<open>try { body } catch (error) { handler }\<close>\<close>

definition tryCatch :: "'a outcome \<Rightarrow> (js_error \<Rightarrow> 'a outcome) \<Rightarrow> 'a outcome" where
  "tryCatch body handler =
     (case body of
        (calls, Inr v) \<Rightarrow> (calls, Inr v)
      | (calls, Inl error) \<Rightarrow> (case handler error of (calls', r) \<Rightarrow> (calls @ calls', r)))"

text \<open>\<^verbatim>\<open>... finally { cleanup }\<close>, for a cleanup that only sets state: an error
  thrown in the body is thrown on after the cleanup.\<close>

definition andFinally :: "'a outcome \<Rightarrow> ('a \<Rightarrow> 'a) \<Rightarrow> 'a outcome" where
  "andFinally body cleanup =
     (case body of
        (calls, Inl error) \<Rightarrow> (calls, Inl error)
      | (calls, Inr v) \<Rightarrow> (calls, Inr (cleanup v)))"

section \<open>The chat page (ChatPage)\<close>

text \<open>
  The state of the component: the route parameter, the signed-in user, and the values
  held by \<^verbatim>\<open>useState\<close>.
\<close>

record chatPage =
  sessionId :: "string option"
  user :: "User option"
  session :: "ChatSession option"
  messages :: "ChatMessageType list"
  newMessage :: string
  isLoading :: bool
  isSending :: bool
  isTyping :: bool
  hasRenamedSession :: bool

text \<open>
  What one run of a handler reads from outside the component: the clock at the two places
  a message is built, the samples of \<^verbatim>\<open>Math.random()\<close> of the two title computations,
  \<^verbatim>\<open>parseInt\<close> (\<^term>\<open>None\<close> is \<^verbatim>\<open>NaN\<close>), and the answers of \<^verbatim>\<open>chatApi\<close>,
  whose code is not part of the sources: an answer is a rejection (\<^term>\<open>Inl\<close>) or a value.
  The value a send request resolves to is \<^term>\<open>None\<close> when it is \<^verbatim>\<open>null\<close> or
  \<^verbatim>\<open>undefined\<close>, and otherwise what its two properties read.
\<close>

record environment =
  dateNow_user :: int
  toISOString_user :: string
  dateNow_reply :: int
  toISOString_reply :: string
  random_title :: sample
  random_fallback :: sample
  parseInt :: "string \<Rightarrow> int option"
  updateSession :: "int \<Rightarrow> string option \<Rightarrow> js_error + ChatSession"
  sendMessage :: "sendMessageRequest \<Rightarrow> js_error + sendMessageResponse option"

definition initialChatPage :: "string option \<Rightarrow> User option \<Rightarrow> chatPage" where
  "initialChatPage sid u =
     \<lparr>sessionId = sid, user = u, session = None, messages = [], newMessage = [],
      isLoading = True, isSending = False, isTyping = False, hasRenamedSession = False\<rparr>"

text \<open>The object built from \<^verbatim>\<open>user?.company_name\<close>, \<^verbatim>\<open>user?.industry\<close>, ...\<close>

definition contextOfUser :: "User option \<Rightarrow> businessContext" where
  "contextOfUser u =
     \<lparr>company = Option.bind u company_name,
      industry = Option.bind u user_industry,
      business_type = Option.bind u user_business_type,
      company_size = Option.bind u user_company_size\<rparr>"

subsection \<open>renameSessionBasedOnMessage\<close>

definition renameTry :: "environment \<Rightarrow> string \<Rightarrow> ChatSession \<Rightarrow> chatPage \<Rightarrow> chatPage outcome" where
  "renameTry env msg s st =
     (let smartTitle = generateSmartChatTitle (random_title env) msg
                         (Some (contextOfUser (user st)))
      in case updateSession env (session_ident s) smartTitle of
           Inl error \<Rightarrow> ([UpdateSession (session_ident s) smartTitle], Inl error)
         | Inr updatedSession \<Rightarrow>
             ([UpdateSession (session_ident s) smartTitle],
              Inr (st\<lparr>session := Some updatedSession, hasRenamedSession := True\<rparr>)))"

definition renameCatch :: "environment \<Rightarrow> string \<Rightarrow> chatPage \<Rightarrow> chatPage outcome" where
  "renameCatch env msg st =
     ([], Inr (st\<lparr>session :=
                    map_option
                      (\<lambda>prev. prev\<lparr>session_name :=
                                     generateSmartChatTitle (random_fallback env) msg None\<rparr>)
                      (session st),
                  hasRenamedSession := True\<rparr>))"

definition renameSessionBasedOnMessage :: "environment \<Rightarrow> string \<Rightarrow> chatPage \<Rightarrow> chatPage outcome" where
  "renameSessionBasedOnMessage env msg st =
     (case session st of
        None \<Rightarrow> ([], Inr st)
      | Some s \<Rightarrow>
          if hasRenamedSession st then ([], Inr st)
          else tryCatch (renameTry env msg s st) (\<lambda>error. renameCatch env msg st))"

subsection \<open>handleSendMessage\<close>

definition fallbackText :: string where
  "fallbackText = ''Sorry, I encountered an error processing your message. Please try again.''"

definition userMessageOf :: "environment \<Rightarrow> string \<Rightarrow> ChatMessageType" where
  "userMessageOf env messageContent =
     \<lparr>message_ident = dateNow_user env, content = Some messageContent, role = UserRole,
      created_at = toISOString_user env, tools_used = None\<rparr>"

definition aiMessageOf :: "environment \<Rightarrow> sendMessageResponse \<Rightarrow> ChatMessageType" where
  "aiMessageOf env resp =
     \<lparr>message_ident = dateNow_reply env + 1, content = response resp, role = AssistantRole,
      created_at = toISOString_reply env, tools_used = response_tools_used resp\<rparr>"

definition errorMessageOf :: "environment \<Rightarrow> ChatMessageType" where
  "errorMessageOf env =
     \<lparr>message_ident = dateNow_reply env + 1, content = Some fallbackText, role = AssistantRole,
      created_at = toISOString_reply env, tools_used = None\<rparr>"

definition requestOf :: "environment \<Rightarrow> string \<Rightarrow> chatPage \<Rightarrow> sendMessageRequest" where
  "requestOf env messageContent st =
     \<lparr>message = messageContent,
      session_id = Option.bind (sessionId st) (parseInt env),
      business_context = contextOfUser (user st)\<rparr>"

text \<open>The body of the \<^verbatim>\<open>try\<close>: the awaited request throws when it is rejected, and
  reading \<^verbatim>\<open>response.response\<close> throws a \<^verbatim>\<open>TypeError\<close> when the answer is
  \<^verbatim>\<open>null\<close> or \<^verbatim>\<open>undefined\<close>. Any other answer is appended as it reads.\<close>

definition sendTry :: "environment \<Rightarrow> string \<Rightarrow> chatPage \<Rightarrow> chatPage outcome" where
  "sendTry env messageContent st =
     (case sendMessage env (requestOf env messageContent st) of
        Inl error \<Rightarrow> ([SendMessage (requestOf env messageContent st)], Inl error)
      | Inr None \<Rightarrow>
          ([SendMessage (requestOf env messageContent st)], Inl (JsError ''TypeError''))
      | Inr (Some resp) \<Rightarrow>
          ([SendMessage (requestOf env messageContent st)],
           Inr (st\<lparr>messages := messages st @ [aiMessageOf env resp]\<rparr>)))"

definition sendCatch :: "environment \<Rightarrow> chatPage \<Rightarrow> chatPage outcome" where
  "sendCatch env st = ([], Inr (st\<lparr>messages := messages st @ [errorMessageOf env]\<rparr>))"

text \<open>\<^verbatim>\<open>!newMessage.trim() || isSending || !sessionId\<close>: an empty string and a missing
  route parameter are falsy.\<close>

definition sendRefused :: "chatPage \<Rightarrow> bool" where
  "sendRefused st =
     (trim (newMessage st) = [] \<or> isSending st \<or> sessionId st = None \<or> sessionId st = Some [])"

text \<open>
  The test \<^verbatim>\<open>messages.length === 0\<close>, and the session and the flag that
  \<^verbatim>\<open>renameSessionBasedOnMessage\<close> reads, are those of the render the handler was
  created in: the state \<open>st\<close> the handler starts from. The state setters act on the
  current state.
\<close>

definition handleSendMessage :: "environment \<Rightarrow> chatPage \<Rightarrow> chatPage outcome" where
  "handleSendMessage env st =
     (if sendRefused st then ([], Inr st)
      else
        let messageContent = trim (newMessage st);
            st1 = st\<lparr>newMessage := [], isSending := True, isTyping := True,
                     messages := messages st @ [userMessageOf env messageContent]\<rparr>
        in andThen
             (if length (messages st) = 0
              then renameSessionBasedOnMessage env messageContent st1
              else ([], Inr st1))
             (\<lambda>st2. andFinally
                      (tryCatch (sendTry env messageContent st2) (\<lambda>error. sendCatch env st2))
                      (\<lambda>st3. st3\<lparr>isSending := False, isTyping := False\<rparr>)))"

subsection \<open>loadSession, createNewSession and the events of the page\<close>

definition loadSession ::
  "(js_error + ChatSession \<times> ChatMessageType list) \<Rightarrow> chatPage \<Rightarrow> chatPage" where
  "loadSession answer st =
     (if sessionId st = None \<or> sessionId st = Some [] then st
      else (case answer of
              Inl error \<Rightarrow> st\<lparr>isLoading := False\<rparr>
            | Inr (sessionData, messagesData) \<Rightarrow>
                st\<lparr>session := Some sessionData, messages := messagesData, isLoading := False\<rparr>))"

text \<open>On success \<^verbatim>\<open>createNewSession\<close> navigates to the route of the new session:
  the route parameter becomes the text that \<open>toString\<close> gives for the new id. On failure
  it stops loading.\<close>

definition createNewSession ::
  "sample \<Rightarrow> (string option \<Rightarrow> js_error + ChatSession) \<Rightarrow> (int \<Rightarrow> string) \<Rightarrow> chatPage
     \<Rightarrow> chatPage outcome" where
  "createNewSession rnd createSession toString st =
     tryCatch
       (let creativeName = getRandomCreativeTitle rnd
        in case createSession creativeName of
             Inl error \<Rightarrow> ([CreateSession creativeName], Inl error)
           | Inr newSession \<Rightarrow>
               ([CreateSession creativeName],
                Inr (st\<lparr>sessionId := Some (toString (session_ident newSession))\<rparr>)))
       (\<lambda>error. ([], Inr (st\<lparr>isLoading := False\<rparr>)))"

text \<open>
  The events of a page: typing into the input, submitting the form, the answer to
  \<^verbatim>\<open>loadSession\<close>, the run of \<^verbatim>\<open>createNewSession\<close>, and the component being
  mounted again (after leaving the page, or a reload), which starts from the initial values
  of \<^verbatim>\<open>useState\<close>.
\<close>

datatype event =
    Change string
  | Submit environment
  | Load "js_error + ChatSession \<times> ChatMessageType list"
  | NewSession sample "string option \<Rightarrow> js_error + ChatSession" "int \<Rightarrow> string"
  | Mount "string option" "User option"

fun step :: "event \<Rightarrow> chatPage \<Rightarrow> call list \<times> chatPage" where
  "step (Change t) st = ([], st\<lparr>newMessage := t\<rparr>)"
| "step (Submit env) st =
     (case handleSendMessage env st of
        (calls, Inr st') \<Rightarrow> (calls, st')
      | (calls, Inl error) \<Rightarrow> (calls, st))"
| "step (Load answer) st = ([], loadSession answer st)"
| "step (NewSession rnd createSession toString) st =
     (case createNewSession rnd createSession toString st of
        (calls, Inr st') \<Rightarrow> (calls, st')
      | (calls, Inl error) \<Rightarrow> (calls, st))"
| "step (Mount sid u) st = ([], initialChatPage sid u)"

fun run :: "event list \<Rightarrow> chatPage \<Rightarrow> call list \<times> chatPage" where
  "run [] st = ([], st)"
| "run (e # es) st =
     (case step e st of (calls, st') \<Rightarrow>
        (case run es st' of (calls', st'') \<Rightarrow> (calls @ calls', st'')))"

fun isMount :: "event \<Rightarrow> bool" where
  "isMount (Mount sid u) = True"
| "isMount e = False"

fun isRename :: "call \<Rightarrow> bool" where
  "isRename (UpdateSession i n) = True"
| "isRename c = False"

fun isSend :: "call \<Rightarrow> bool" where
  "isSend (SendMessage r) = True"
| "isSend c = False"

text \<open>The state after the user's message was added, and the assistant message a turn
  ends with: the reply, or the error message when the request is rejected.\<close>

definition afterUserMessage :: "environment \<Rightarrow> chatPage \<Rightarrow> chatPage" where
  "afterUserMessage env st =
     st\<lparr>newMessage := [], isSending := True, isTyping := True,
        messages := messages st @ [userMessageOf env (trim (newMessage st))]\<rparr>"

definition replyOf :: "environment \<Rightarrow> chatPage \<Rightarrow> ChatMessageType" where
  "replyOf env st =
     (case sendMessage env (requestOf env (trim (newMessage st)) st) of
        Inl error \<Rightarrow> errorMessageOf env
      | Inr None \<Rightarrow> errorMessageOf env
      | Inr (Some resp) \<Rightarrow> aiMessageOf env resp)"

section \<open>The dashboard (DashboardPage)\<close>

text \<open>\<^verbatim>\<open>handleNewChat\<close>: the outcome carries the id of the session navigated to, if any.\<close>

definition handleNewChat ::
  "sample \<Rightarrow> (string option \<Rightarrow> js_error + ChatSession) \<Rightarrow> int option outcome" where
  "handleNewChat rnd createSession =
     tryCatch
       (let creativeName = getRandomCreativeTitle rnd
        in case createSession creativeName of
             Inl error \<Rightarrow> ([CreateSession creativeName], Inl error)
           | Inr newSession \<Rightarrow>
               ([CreateSession creativeName], Inr (Some (session_ident newSession))))
       (\<lambda>error. ([], Inr None))"

section \<open>Example states\<close>

text \<open>A loaded page of session 7 with no messages yet and a typed first message; a
  backend that rejects every request, and one that answers. The samples are the doubles
  \<open>0\<close> and \<open>1 / 2\<close>.\<close>

definition exampleSession :: ChatSession where
  "exampleSession =
     \<lparr>session_ident = 7, session_name = Some ''Growth Strategy Workshop'', message_count = 0,
      updated_at = ''2025-01-01T00:00:00.000Z''\<rparr>"

definition examplePage :: chatPage where
  "examplePage =
     \<lparr>sessionId = Some ''7'', user = None, session = Some exampleSession, messages = [],
      newMessage = '' How can we launch?  '', isLoading = False, isSending = False,
      isTyping = False, hasRenamedSession = False\<rparr>"

definition offlineEnvironment :: environment where
  "offlineEnvironment =
     \<lparr>dateNow_user = 1000, toISOString_user = ''2025-01-01T00:00:01.000Z'',
      dateNow_reply = 2000, toISOString_reply = ''2025-01-01T00:00:02.000Z'',
      random_title = Sample 0 0, random_fallback = Sample 1 1,
      parseInt = (\<lambda>text. if text = ''7'' then Some 7 else None),
      updateSession = (\<lambda>i name. Inl (JsError ''Network Error'')),
      sendMessage = (\<lambda>request. Inl (JsError ''timeout of 30000ms exceeded''))\<rparr>"

definition onlineEnvironment :: environment where
  "onlineEnvironment =
     offlineEnvironment
       \<lparr>updateSession := (\<lambda>i name. Inr (exampleSession\<lparr>session_ident := i, session_name := name\<rparr>)),
        sendMessage := (\<lambda>request. Inr (Some \<lparr>response = Some ''Start with a pilot.'',
                                                response_tools_used = None\<rparr>))\<rparr>"

text \<open>A backend whose answer to a send request has no \<^verbatim>\<open>response\<close> property.\<close>

definition malformedEnvironment :: environment where
  "malformedEnvironment =
     offlineEnvironment
       \<lparr>sendMessage := (\<lambda>request. Inr (Some \<lparr>response = None,
                                                response_tools_used = None\<rparr>))\<rparr>"

section \<open>Properties of the title heuristic\<close>

subsection \<open>Random selection stays inside the array\<close>

lemma bitLength_bounds: "0 < a \<Longrightarrow> 2 ^ (bitLength a - 1) \<le> a \<and> a < 2 ^ bitLength a"
proof (induction a rule: bitLength.induct)
  case (1 a)
  show ?case
  proof (cases "a div 2 \<le> 0")
    case True
    with "1.prems" have "a = 1" by linarith
    then show ?thesis by (simp add: bitLength.simps)
  next
    case False
    with "1.IH" "1.prems"
    have ih: "2 ^ (bitLength (a div 2) - 1) \<le> a div 2" "a div 2 < 2 ^ bitLength (a div 2)"
      by simp_all
    have b: "bitLength a = Suc (bitLength (a div 2))"
      using "1.prems" by (simp add: bitLength.simps [of a])
    have pos: "bitLength (a div 2) \<noteq> 0"
      using False by (simp add: bitLength.simps [of "a div 2"])
    then obtain j where j: "bitLength (a div 2) = Suc j"
      by (cases "bitLength (a div 2)") auto
    from ih j have "2 * 2 ^ j \<le> 2 * (a div 2)" by simp
    also have "\<dots> \<le> a" by linarith
    finally have lo: "2 ^ Suc j \<le> a" by simp
    from ih(2) have "a div 2 + 1 \<le> 2 ^ bitLength (a div 2)" by simp
    then have "2 * (a div 2) + 2 \<le> 2 * 2 ^ bitLength (a div 2)" by simp
    moreover have "a \<le> 2 * (a div 2) + 1" by linarith
    ultimately have hi: "a < 2 ^ Suc (bitLength (a div 2))" by simp
    from lo hi b j show ?thesis by simp
  qed
qed

text \<open>Rounding moves a number by at most half a unit, up or down.\<close>

lemma roundToEven_upper:
  assumes "0 < s"
  shows "roundToEven a s * 2 ^ s \<le> a + 2 ^ (s - 1)"
proof -
  let ?q = "a div 2 ^ s" and ?r = "a mod 2 ^ s" and ?h = "(2::int) ^ (s - 1)"
  have a: "a = ?q * 2 ^ s + ?r" by (simp only: div_mult_mod_eq)
  have r: "0 \<le> ?r" by simp
  have p: "(2::int) ^ s = 2 * ?h" using assms by (cases s) simp_all
  have up: "(?q + 1) * 2 ^ s \<le> a + ?h" if "?h \<le> ?r"
  proof -
    have "(?q + 1) * 2 ^ s = ?q * 2 ^ s + 2 * ?h" using p by (simp add: algebra_simps)
    also have "\<dots> \<le> ?q * 2 ^ s + ?r + ?h" using that by simp
    also have "\<dots> = a + ?h" using a by simp
    finally show ?thesis .
  qed
  have "?q * 2 ^ s \<le> a" using a r by linarith
  moreover have "0 \<le> ?h" by simp
  ultimately have down: "?q * 2 ^ s \<le> a + ?h" by linarith
  show ?thesis
    using up down by (auto simp: roundToEven_def Let_def)
qed

lemma roundToEven_lower: "a \<le> roundToEven a s * 2 ^ s + 2 ^ (s - 1)"
proof -
  let ?q = "a div 2 ^ s" and ?r = "a mod 2 ^ s" and ?h = "(2::int) ^ (s - 1)"
  have a: "a = ?q * 2 ^ s + ?r" by (simp only: div_mult_mod_eq)
  have r: "?r < 2 ^ s" by simp
  have h: "0 \<le> ?h" by simp
  have down: "a \<le> ?q * 2 ^ s + ?h" if "?r \<le> ?h" using a that by linarith
  have up: "a \<le> (?q + 1) * 2 ^ s + ?h"
  proof -
    have "a \<le> ?q * 2 ^ s + 2 ^ s" using a r by linarith
    moreover have "(?q + 1) * 2 ^ s = ?q * 2 ^ s + 2 ^ s" by (simp add: algebra_simps)
    ultimately show ?thesis using h by linarith
  qed
  show ?thesis using up down by (auto simp: roundToEven_def Let_def)
qed

text \<open>The numerator of a product with \<open>n\<close> has at most as many digits beyond 53 as \<open>n\<close>
  has, so half a unit of the rounding is less than \<open>n\<close>.\<close>

lemma roundSignificand_upper:
  assumes "0 \<le> a" and "a < 2 ^ 53 * int n"
  shows "roundSignificand a < a + int n"
proof (cases "a < 2 ^ 53")
  case True
  with assms have "0 < n" by (cases n) simp_all
  with True show ?thesis by (simp add: roundSignificand_def)
next
  case False
  then have a0: "0 < a" by simp
  let ?s = "bitLength a - 53"
  from bitLength_bounds [OF a0]
  have lo: "2 ^ (bitLength a - 1) \<le> a" and hi: "a < 2 ^ bitLength a"
    by simp_all
  have "(2::int) ^ 53 < 2 ^ bitLength a" using False hi by simp
  then have b: "53 < bitLength a" by (simp only: power_strict_increasing_iff)
  then have s: "0 < ?s" by simp
  define P where "P = (2::int) ^ 53"
  have Ppos: "0 < P" by (simp add: P_def)
  have "bitLength a - 1 = (?s - 1) + 53" using b by simp
  then have "(2::int) ^ (bitLength a - 1) = 2 ^ (?s - 1) * P"
    by (simp only: power_add P_def)
  with lo have "2 ^ (?s - 1) * P \<le> a" by (simp only:)
  moreover have "a < int n * P" using assms(2) by (simp only: P_def mult.commute)
  ultimately have "2 ^ (?s - 1) * P < int n * P" by linarith
  then have h: "2 ^ (?s - 1) < int n" using Ppos by (simp only: mult_less_cancel_right_pos)
  have "roundToEven a ?s * 2 ^ ?s < a + int n"
    using roundToEven_upper [OF s, of a] h by linarith
  moreover have "roundSignificand a = roundToEven a ?s * 2 ^ ?s"
    using False by (simp only: roundSignificand_def if_False)
  ultimately show ?thesis by (simp only:)
qed

lemma roundSignificand_nonneg: "0 \<le> a \<Longrightarrow> 0 \<le> roundSignificand a"
proof -
  assume a: "0 \<le> a"
  have "0 \<le> roundToEven a s" for s
    using a
    by (auto simp: roundToEven_def Let_def pos_imp_zdiv_nonneg_iff intro: add_nonneg_nonneg)
  then show ?thesis using a by (simp add: roundSignificand_def)
qed

lemma randomIndex_bounds:
  assumes "isSample x" and "0 < n"
  shows "0 \<le> randomIndex x n \<and> randomIndex x n < int n"
proof -
  let ?m = "significand x" and ?k = "shift x"
  from assms(1) have m: "0 \<le> ?m" "?m < 2 ^ 53" "?m < 2 ^ ?k"
    by (simp_all add: isSample_def)
  have a0: "0 \<le> ?m * int n" using m(1) by simp
  have "?m * int n < 2 ^ 53 * int n" using m(2) assms(2) by simp
  with a0 have "roundSignificand (?m * int n) < ?m * int n + int n"
    by (rule roundSignificand_upper)
  also have "\<dots> = (?m + 1) * int n" by (simp add: algebra_simps)
  also have "\<dots> \<le> 2 ^ ?k * int n" using m(3) by (intro mult_right_mono) simp_all
  finally have lt: "roundSignificand (?m * int n) < int n * 2 ^ ?k"
    by (simp add: mult.commute)
  let ?r = "roundSignificand (?m * int n)"
  have "?r = ?r div 2 ^ ?k * 2 ^ ?k + ?r mod 2 ^ ?k" by (simp only: div_mult_mod_eq)
  moreover have "0 \<le> ?r mod 2 ^ ?k" by simp
  ultimately have "?r div 2 ^ ?k * 2 ^ ?k \<le> ?r" by linarith
  with lt have "?r div 2 ^ ?k * 2 ^ ?k < int n * 2 ^ ?k" by linarith
  then have hi: "?r div 2 ^ ?k < int n" by simp
  have "0 \<le> ?r div 2 ^ ?k"
    using roundSignificand_nonneg [OF a0] by (simp add: pos_imp_zdiv_nonneg_iff)
  with hi show ?thesis by (simp add: randomIndex_def)
qed

lemma sampleValue_range: "isSample x \<Longrightarrow> 0 \<le> sampleValue x \<and> sampleValue x < 1"
proof -
  assume s: "isSample x"
  then have "significand x < 2 ^ shift x" by (simp add: isSample_def)
  then have "real_of_int (significand x) < real_of_int (2 ^ shift x)"
    by (simp only: of_int_less_iff)
  then have "real_of_int (significand x) < 2 ^ shift x" by simp
  moreover have "0 \<le> real_of_int (significand x)" using s by (simp add: isSample_def)
  ultimately show ?thesis by (simp add: sampleValue_def)
qed

text \<open>
  The double nearest to 0.6 is \<open>5404319552844595 / 2 ^ 53\<close>; its product with 15 is
  rounded to 9, and the index is 9, where the exact product has the integer part 8. The
  product of \<open>1 / 2\<close> and 15 is exact, and the index is 7.
\<close>

lemma rounded_product_example:
  "isSample (Sample 5404319552844595 53)
   \<and> randomIndex (Sample 5404319552844595 53) 15 = 9"
  by code_simp

lemma exact_floor_example: "\<lfloor>sampleValue (Sample 5404319552844595 53) * 15\<rfloor> = 8"
  by (simp add: sampleValue_def floor_eq_iff)

lemma exact_product_example:
  "isSample (Sample 1 1) \<and> randomIndex (Sample 1 1) 15 = 7
   \<and> isSample (Sample 0 0) \<and> randomIndex (Sample 0 0) 3 = 0"
  by code_simp

lemma pick_member:
  assumes "isSample rnd" and "xs \<noteq> []"
  shows "\<exists>t. pick rnd xs = Some t \<and> t \<in> set xs"
proof -
  have "0 \<le> randomIndex rnd (length xs) \<and> randomIndex rnd (length xs) < int (length xs)"
    using assms by (intro randomIndex_bounds) simp_all
  then have b: "0 \<le> randomIndex rnd (length xs)" "randomIndex rnd (length xs) < int (length xs)"
    by simp_all
  then have "pick rnd xs = Some (xs ! nat (randomIndex rnd (length xs)))"
    by (simp add: pick_def element_def)
  moreover have "nat (randomIndex rnd (length xs)) < length xs"
    using b by linarith
  ultimately show ?thesis by simp
qed

lemma pick_nonempty:
  assumes "isSample rnd" and "xs \<noteq> [] \<and> (\<forall>t \<in> set xs. t \<noteq> [])"
  shows "\<exists>t. pick rnd xs = Some t \<and> t \<noteq> []"
  using pick_member [of rnd xs] assms by auto

subsection \<open>The creative titles of a new chat\<close>

lemma creativeTitles_nonempty: "\<forall>t \<in> set creativeTitles. t \<noteq> []"
  by (simp add: creativeTitles_def)

lemma fst_handleNewChat:
  "fst (handleNewChat rnd createSession) = [CreateSession (getRandomCreativeTitle rnd)]"
  by (simp add: handleNewChat_def tryCatch_def Let_def split: sum.split prod.split)

lemma fst_createNewSession:
  "fst (createNewSession rnd createSession toString st) =
     [CreateSession (getRandomCreativeTitle rnd)]"
  by (simp add: createNewSession_def tryCatch_def Let_def split: sum.split prod.split)

text \<open>
  Claim C7. Every session created through the new-chat action (\<^verbatim>\<open>handleNewChat\<close> of
  the dashboard, \<^verbatim>\<open>createNewSession\<close> of the chat page) is created under a name drawn
  from \<^verbatim>\<open>creativeTitles\<close>: for every double \<open>0 \<le> x < 1\<close> that \<^verbatim>\<open>Math.random()\<close>
  may return, the index \<^verbatim>\<open>Math.floor(x * creativeTitles.length)\<close>, computed in double
  arithmetic, is within the bounds of the pool, every element of the pool is a non-empty
  string, and the one request made carries such a name.
\<close>

theorem new_chat_name_from_pool:
  assumes "isSample rnd"
  shows "0 \<le> randomIndex rnd (length creativeTitles)
       \<and> randomIndex rnd (length creativeTitles) < int (length creativeTitles)
       \<and> (\<forall>t \<in> set creativeTitles. t \<noteq> [])
       \<and> (\<exists>name. getRandomCreativeTitle rnd = Some name \<and> name \<in> set creativeTitles
             \<and> name \<noteq> []
             \<and> fst (handleNewChat rnd createSession) = [CreateSession (Some name)]
             \<and> fst (createNewSession rnd createSession toString st) =
                 [CreateSession (Some name)])"
proof -
  have ne: "creativeTitles \<noteq> []" by (simp add: creativeTitles_def)
  then have b: "0 \<le> randomIndex rnd (length creativeTitles)
       \<and> randomIndex rnd (length creativeTitles) < int (length creativeTitles)"
    using assms by (intro randomIndex_bounds) simp_all
  obtain name where n: "getRandomCreativeTitle rnd = Some name" "name \<in> set creativeTitles"
    using pick_member [OF assms ne] by (auto simp: getRandomCreativeTitle_def)
  then have "name \<noteq> []" using creativeTitles_nonempty by blast
  with n b creativeTitles_nonempty show ?thesis
    by (simp add: fst_handleNewChat fst_createNewSession)
qed

theorem new_chat_name_from_pool_witness:
  "isSample (Sample 5404319552844595 53)
   \<and> randomIndex (Sample 5404319552844595 53) (length creativeTitles) = 9
   \<and> getRandomCreativeTitle (Sample 5404319552844595 53) = Some ''Innovation Strategy Talk''
   \<and> fst (handleNewChat (Sample 5404319552844595 53) (\<lambda>name. Inl (JsError ''Network Error'')))
       = [CreateSession (Some ''Innovation Strategy Talk'')]"
proof -
  have s: "isSample (Sample 5404319552844595 53)"
    using rounded_product_example by simp
  have l: "length creativeTitles = 15" by (simp add: creativeTitles_def)
  have i: "randomIndex (Sample 5404319552844595 53) (length creativeTitles) = 9"
    using rounded_product_example by (simp add: l)
  have g: "getRandomCreativeTitle (Sample 5404319552844595 53) = Some ''Innovation Strategy Talk''"
    by (simp add: getRandomCreativeTitle_def pick_def element_def i)
       (simp add: creativeTitles_def)
  from new_chat_name_from_pool [OF s, of "\<lambda>name. Inl (JsError ''Network Error'')"] s i g
  show ?thesis by simp
qed

subsection \<open>Every template is a non-empty title\<close>

lemma general_business_nonempty:
  "general_business \<noteq> [] \<and> (\<forall>t \<in> set general_business. t \<noteq> [])"
  by (simp add: general_business_def)

lemma titleTemplates_nonempty:
  "titleTemplates topic = Some templates \<Longrightarrow>
     templates \<noteq> [] \<and> (\<forall>t \<in> set templates. t \<noteq> [])"
  by (cases topic)
     (auto simp: market_research_titles_def competitor_analysis_titles_def
        business_strategy_titles_def)

lemma industry_specific_nonempty:
  "getProperty industry_specific i = Own templates \<Longrightarrow>
     templates \<noteq> [] \<and> (\<forall>t \<in> set templates. t \<noteq> [])"
  by (auto simp: getProperty_def industry_specific_def split: if_splits option.splits)

lemma companyTitle_nonempty:
  assumes "isSample rnd"
  shows "\<exists>t. companyTitle rnd firstMessage topics = Some t \<and> t \<noteq> []"
proof (cases "companyMatch firstMessage")
  case None
  then show ?thesis
    using pick_nonempty [OF assms general_business_nonempty] by (simp add: companyTitle_def)
next
  case (Some companyName)
  then show ?thesis by (simp add: companyTitle_def)
qed

lemma topicTitle_nonempty:
  assumes "isSample rnd"
  shows "\<exists>t. topicTitle rnd firstMessage topics = Some t \<and> t \<noteq> []"
proof (cases topics)
  case Nil
  then show ?thesis using companyTitle_nonempty [OF assms] by (simp add: topicTitle_def)
next
  case (Cons primaryTopic others)
  show ?thesis
  proof (cases "titleTemplates primaryTopic")
    case None
    with Cons show ?thesis using companyTitle_nonempty [OF assms] by (simp add: topicTitle_def)
  next
    case (Some templates)
    with Cons show ?thesis
      using pick_nonempty [OF assms titleTemplates_nonempty [OF Some]]
      by (simp add: topicTitle_def)
  qed
qed

text \<open>The title is a non-empty string whenever the detected industry is not the name of
  a property the template object inherits.\<close>

lemma generateSmartChatTitle_nonempty:
  assumes "isSample rnd"
    and "\<And>i. extractIndustry firstMessage businessContext = Some i \<Longrightarrow>
            getProperty industry_specific i \<noteq> Inherited"
  shows "\<exists>t. generateSmartChatTitle rnd firstMessage businessContext = Some t \<and> t \<noteq> []"
proof (cases "extractIndustry firstMessage businessContext")
  case None
  then show ?thesis
    using topicTitle_nonempty [OF assms(1)] by (simp add: generateSmartChatTitle_def)
next
  case (Some i)
  show ?thesis
  proof (cases "getProperty industry_specific i")
    case (Own templates)
    with Some show ?thesis
      using pick_nonempty [OF assms(1) industry_specific_nonempty [OF Own]]
        topicTitle_nonempty [OF assms(1), of firstMessage "extractTopics firstMessage"]
      by (simp add: generateSmartChatTitle_def Let_def)
  next
    case Inherited
    with Some assms(2) show ?thesis by simp
  next
    case Undefined
    with Some show ?thesis
      using topicTitle_nonempty [OF assms(1), of firstMessage "extractTopics firstMessage"]
      by (simp add: generateSmartChatTitle_def Let_def)
  qed
qed

lemma industryLoop_result:
  "industryLoop lowerMessage ks = Some i \<Longrightarrow> i \<in> set (map normalizeIndustry ks)"
  by (induction ks) (auto split: if_splits)

lemma industryLoop_find:
  "industryLoop lowerMessage ks =
     map_option normalizeIndustry (find (includesStr lowerMessage) ks)"
  by (induction ks) simp_all

lemma keyword_industries_not_inherited:
  "\<forall>i \<in> set (map normalizeIndustry industries). getProperty industry_specific i \<noteq> Inherited"
  by code_simp

lemma generateSmartChatTitle_no_context:
  assumes "isSample rnd"
  shows "\<exists>t. generateSmartChatTitle rnd firstMessage None = Some t \<and> t \<noteq> []"
proof (rule generateSmartChatTitle_nonempty [OF assms])
  fix i assume "extractIndustry firstMessage None = Some i"
  then have "industryLoop (toLowerCase firstMessage) industries = Some i"
    by (simp add: extractIndustry_def contextIndustry_def)
  then have "i \<in> set (map normalizeIndustry industries)"
    by (rule industryLoop_result)
  with keyword_industries_not_inherited show "getProperty industry_specific i \<noteq> Inherited"
    by blast
qed

text \<open>
  Claim C2 says that \<^verbatim>\<open>generateSmartChatTitle\<close> returns a non-empty string for every
  message and every business context. The code returns \<^verbatim>\<open>undefined\<close> for a context
  whose industry, in lower case, names a property that the object
  \<^verbatim>\<open>titleTemplates.industry_specific\<close> inherits: the lookup yields the inherited value,
  which is truthy, and the element read from it is \<^verbatim>\<open>undefined\<close>.
\<close>

theorem inherited_industry_title_undefined:
  "extractIndustry ''hello'' (Some \<lparr>company = None, industry = Some ''Constructor'',
       business_type = None, company_size = None\<rparr>) = Some ''constructor''
   \<and> getProperty industry_specific ''constructor'' = Inherited
   \<and> generateSmartChatTitle rnd ''hello'' (Some \<lparr>company = None, industry = Some ''Constructor'',
       business_type = None, company_size = None\<rparr>) = None"
  by code_simp

subsection \<open>Industry detection\<close>

text \<open>
  Claim C4 says that the message \<^verbatim>\<open>What are the market trends in fintech?\<close> gets a
  title of the finance set. The code scans the keyword \<^verbatim>\<open>tech\<close> before
  \<^verbatim>\<open>fintech\<close>, and \<^verbatim>\<open>fintech\<close> includes it: the industry detected is
  \<^verbatim>\<open>technology\<close> and the title is drawn from the technology set. The industry still
  takes precedence over the topic \<^verbatim>\<open>market_research\<close>.
\<close>

theorem fintech_message_gets_technology_title:
  "extractIndustry ''What are the market trends in fintech?'' None = Some ''technology''
   \<and> extractTopics ''What are the market trends in fintech?'' = [market_research]
   \<and> generateSmartChatTitle rnd ''What are the market trends in fintech?'' None =
       pick rnd [''Tech Strategy'', ''Technology Analysis'', ''Tech Market Research'']
   \<and> generateSmartChatTitle (Sample 0 0) ''What are the market trends in fintech?'' None =
       Some ''Tech Strategy''"
  by code_simp

text \<open>An industry that the business context supplies is preferred to every keyword of the
  message, and is returned in lower case.\<close>

lemma context_industry_preferred:
  "industry ctx = Some i \<Longrightarrow> i \<noteq> [] \<Longrightarrow>
     extractIndustry msg (Some ctx) = Some (toLowerCase i)"
  by (simp add: extractIndustry_def contextIndustry_def)

text \<open>
  Claim C5 says that the normalization map is applied to the industry detected from the
  business context as it is to a keyword of the message. The code does prefer the
  context's industry, but returns it in lower case without the map that its keyword loop
  applies. The industry \<^verbatim>\<open>E-commerce\<close>, which the profile form offers, is detected as
  \<^verbatim>\<open>e-commerce\<close>, for which there is no title set, and the title falls through to the
  company pattern; the same word in a message is detected as \<^verbatim>\<open>retail\<close> and gets a
  retail title. Likewise the context industry \<^verbatim>\<open>fintech\<close> is detected as
  \<^verbatim>\<open>fintech\<close>, not as \<^verbatim>\<open>finance\<close>.
\<close>

theorem context_industry_not_normalized:
  "extractIndustry ''How do we grow?'' (Some \<lparr>company = None, industry = Some ''E-commerce'',
       business_type = None, company_size = None\<rparr>) = Some ''e-commerce''
   \<and> generateSmartChatTitle rnd ''How do we grow?'' (Some \<lparr>company = None,
       industry = Some ''E-commerce'', business_type = None, company_size = None\<rparr>)
       = Some ''How Strategy''
   \<and> extractIndustry ''How do we grow in e-commerce?'' None = Some ''retail''
   \<and> generateSmartChatTitle (Sample 0 0) ''How do we grow in e-commerce?'' None
       = Some ''Retail Strategy''
   \<and> extractIndustry ''How do we grow?'' (Some \<lparr>company = None, industry = Some ''fintech'',
       business_type = None, company_size = None\<rparr>) = Some ''fintech''
   \<and> normalizeIndustry ''fintech'' = ''finance''"
  by code_simp

subsection \<open>Topic titles\<close>

text \<open>
  Claim C6, as stated, fails: the topics \<^verbatim>\<open>startup\<close> and \<^verbatim>\<open>marketing\<close> have no
  title set. The message \<^verbatim>\<open>brand\<close> has no industry and the one topic
  \<^verbatim>\<open>marketing\<close>; its title comes from the general business templates.
\<close>

theorem marketing_topic_has_no_title_set:
  "extractIndustry ''brand'' None = None
   \<and> extractTopics ''brand'' = [marketing]
   \<and> titleTemplates marketing = None
   \<and> generateSmartChatTitle (Sample 1 1) ''brand'' None = Some ''Strategic Advice''
   \<and> ''Strategic Advice'' \<in> set general_business"
  by code_simp

text \<open>
  Claim C6, amended. For every message for which no industry is detected and whose primary
  (first-detected) topic is \<^verbatim>\<open>market_research\<close>, \<^verbatim>\<open>competitor_analysis\<close> or
  \<^verbatim>\<open>business_strategy\<close>, the title is a member of that topic's title set (for every
  double that \<^verbatim>\<open>Math.random()\<close> may return). The primary topics \<^verbatim>\<open>startup\<close> and \<^verbatim>\<open>marketing\<close> have no title
  set: there the function goes on to the company-name title or the general business
  templates.
\<close>

theorem primary_topic_title:
  assumes "isSample rnd"
    and "extractIndustry msg businessContext = None"
    and "extractTopics msg = primaryTopic # others"
  shows "(primaryTopic \<in> {market_research, competitor_analysis, business_strategy} \<longrightarrow>
           (\<exists>titles t. titleTemplates primaryTopic = Some titles
              \<and> generateSmartChatTitle rnd msg businessContext = Some t \<and> t \<in> set titles))
       \<and> (primaryTopic \<in> {startup, marketing} \<longrightarrow>
           titleTemplates primaryTopic = None
           \<and> generateSmartChatTitle rnd msg businessContext =
               companyTitle rnd msg (primaryTopic # others))"
proof -
  have g: "generateSmartChatTitle rnd msg businessContext =
             topicTitle rnd msg (primaryTopic # others)"
    using assms(2,3) by (simp add: generateSmartChatTitle_def)
  show ?thesis
  proof (cases "titleTemplates primaryTopic")
    case None
    then show ?thesis using g by (cases primaryTopic) (simp_all add: topicTitle_def)
  next
    case (Some titles)
    then have ne: "titles \<noteq> []" using titleTemplates_nonempty by blast
    obtain t where "pick rnd titles = Some t" "t \<in> set titles"
      using pick_member [OF assms(1) ne] by blast
    with Some g show ?thesis by (cases primaryTopic) (simp_all add: topicTitle_def)
  qed
qed

theorem primary_topic_title_witness:
  "extractIndustry ''How do I compare against my competitors?'' None = None
   \<and> extractTopics ''How do I compare against my competitors?'' = [competitor_analysis]
   \<and> generateSmartChatTitle (Sample 1 1) ''How do I compare against my competitors?'' None
       = Some ''Competition Research''
   \<and> ''Competition Research'' \<in> set competitor_analysis_titles"
proof -
  have a: "extractIndustry ''How do I compare against my competitors?'' None = None"
    by code_simp
  have b: "extractTopics ''How do I compare against my competitors?'' = [competitor_analysis]"
    by code_simp
  have p: "pick (Sample 1 1) competitor_analysis_titles = Some ''Competition Research''"
    by code_simp
  have h: "isSample (Sample 1 1)" using exact_product_example by simp
  from primary_topic_title [OF h a b] a b p show ?thesis
    by (simp add: generateSmartChatTitle_def topicTitle_def competitor_analysis_titles_def)
qed

subsection \<open>The content patterns\<close>

text \<open>
  Claim C8. For the message \<^verbatim>\<open>business plan for Acme Corp\<close> the content-pattern
  function returns exactly \<^verbatim>\<open>Business Planning\<close>, whatever the random sample: the
  phrase check comes before the significant words (which would give
  \<^verbatim>\<open>Business plan Acme\<close>) and before the primary heuristic with its company-name
  pattern (which matches \<^verbatim>\<open>Acme Corp\<close>).
\<close>

theorem business_plan_pattern_first:
  "generateTitleFromContent rnd ''business plan for Acme Corp'' = Some ''Business Planning''
   \<and> capitalize (join '' '' (take 3 (significantWords ''business plan for Acme Corp'')))
       = ''Business plan Acme''
   \<and> companyMatch ''business plan for Acme Corp'' = Some ''Acme Corp''"
  by code_simp


section \<open>Properties of the chat page\<close>

subsection \<open>Trimming\<close>

lemma dropWhile_all: "(\<forall>c \<in> set (dropWhile P xs). P c) \<longleftrightarrow> dropWhile P xs = []"
proof
  assume a: "\<forall>c \<in> set (dropWhile P xs). P c"
  show "dropWhile P xs = []"
  proof (rule ccontr)
    assume n: "dropWhile P xs \<noteq> []"
    then have "\<not> P (hd (dropWhile P xs))" by (rule hd_dropWhile)
    moreover have "hd (dropWhile P xs) \<in> set (dropWhile P xs)" using n by simp
    ultimately show False using a by blast
  qed
next
  assume "dropWhile P xs = []"
  then show "\<forall>c \<in> set (dropWhile P xs). P c" by (simp only: list.set ball_empty)
qed

lemma trim_empty_iff: "trim s = [] \<longleftrightarrow> (\<forall>c \<in> set s. isSpace c)"
proof -
  have "trim s = [] \<longleftrightarrow> (\<forall>c \<in> set (dropWhile isSpace s). isSpace c)"
    by (simp add: trim_def dropWhile_eq_Nil_conv)
  also have "\<dots> \<longleftrightarrow> dropWhile isSpace s = []" by (rule dropWhile_all)
  also have "\<dots> \<longleftrightarrow> (\<forall>c \<in> set s. isSpace c)" by (simp add: dropWhile_eq_Nil_conv)
  finally show ?thesis .
qed

lemma trim_idem: "trim (trim s) = trim s"
proof (cases "trim s = []")
  case True
  have "trim [] = []" by (simp add: trim_def)
  with True show ?thesis by (simp only:)
next
  case False
  let ?d = "dropWhile isSpace s"
  let ?r = "dropWhile isSpace (rev ?d)"
  have r: "?r \<noteq> []" using False by (simp add: trim_def)
  then have d: "?d \<noteq> []" by (metis dropWhile.simps(1) rev.simps(1))
  have hd_d: "\<not> isSpace (hd ?d)" using d by (rule hd_dropWhile)
  have hd_r: "\<not> isSpace (hd ?r)" using r by (rule hd_dropWhile)
  have "last (rev ?d) = hd ?d" using d by (simp add: last_rev)
  moreover have "last ?r = last (rev ?d)"
  proof -
    have "rev ?d = takeWhile isSpace (rev ?d) @ ?r" by simp
    then show ?thesis using r by (metis last_appendR)
  qed
  ultimately have "\<not> isSpace (last ?r)" using hd_d by simp
  then have "\<not> isSpace (hd (rev ?r))" using r by (simp add: hd_rev)
  then have a: "dropWhile isSpace (rev ?r) = rev ?r"
    using r by (cases "rev ?r") auto
  have b: "dropWhile isSpace ?r = ?r"
    using r hd_r by (cases ?r) auto
  show ?thesis using a b by (simp add: trim_def)
qed

lemma trim_not_whitespace: "trim s \<noteq> [] \<Longrightarrow> \<exists>c \<in> set (trim s). \<not> isSpace c"
  using trim_empty_iff [of "trim s"] by (simp add: trim_idem)

subsection \<open>The shape of a turn\<close>

text \<open>The rename step never throws; it leaves the messages, the route and the user as
  they are, makes at most one request, and sets the flag when it makes one.\<close>

lemma rename_shape:
  "\<exists>calls st'. renameSessionBasedOnMessage env msg st = (calls, Inr st')
     \<and> messages st' = messages st \<and> sessionId st' = sessionId st \<and> user st' = user st
     \<and> newMessage st' = newMessage st \<and> isSending st' = isSending st
     \<and> isTyping st' = isTyping st \<and> isLoading st' = isLoading st
     \<and> (hasRenamedSession st \<longrightarrow> calls = [] \<and> st' = st)
     \<and> (calls = [] \<longrightarrow> st' = st)
     \<and> (calls \<noteq> [] \<longrightarrow> length (filter isRename calls) = 1 \<and> hasRenamedSession st'
            \<and> session st \<noteq> None)
     \<and> filter isSend calls = []"
  by (cases "session st")
     (auto simp: renameSessionBasedOnMessage_def tryCatch_def renameTry_def renameCatch_def
        Let_def split: sum.splits)

lemma send_part:
  "andFinally (tryCatch (sendTry env c st2) (\<lambda>error. sendCatch env st2))
       (\<lambda>st3. st3\<lparr>isSending := False, isTyping := False\<rparr>) =
   ([SendMessage (requestOf env c st2)],
    Inr (st2\<lparr>messages := messages st2 @
               [case sendMessage env (requestOf env c st2) of
                  Inl error \<Rightarrow> errorMessageOf env
                | Inr None \<Rightarrow> errorMessageOf env
                | Inr (Some resp) \<Rightarrow> aiMessageOf env resp],
             isSending := False, isTyping := False\<rparr>))"
  by (simp add: andFinally_def tryCatch_def sendTry_def sendCatch_def
      split: sum.splits option.splits)

lemma handleSendMessage_refused: "sendRefused st \<Longrightarrow> handleSendMessage env st = ([], Inr st)"
  by (simp add: handleSendMessage_def)

lemma handleSendMessage_accepted:
  assumes "\<not> sendRefused st"
  shows "\<exists>calls st2.
     (if messages st = []
      then renameSessionBasedOnMessage env (trim (newMessage st)) (afterUserMessage env st)
      else ([], Inr (afterUserMessage env st))) = (calls, Inr st2)
     \<and> handleSendMessage env st =
         (calls @ [SendMessage (requestOf env (trim (newMessage st)) st)],
          Inr (st2\<lparr>messages := messages st @
                       [userMessageOf env (trim (newMessage st)), replyOf env st],
                   isSending := False, isTyping := False\<rparr>))"
proof (cases "messages st = []")
  case True
  obtain calls st2 where
    r: "renameSessionBasedOnMessage env (trim (newMessage st)) (afterUserMessage env st) =
          (calls, Inr st2)"
    and m: "messages st2 = messages (afterUserMessage env st)"
    and s: "sessionId st2 = sessionId (afterUserMessage env st)"
      "user st2 = user (afterUserMessage env st)"
    using rename_shape [of env "trim (newMessage st)" "afterUserMessage env st"] by blast
  have q: "requestOf env (trim (newMessage st)) st2 = requestOf env (trim (newMessage st)) st"
    using s by (simp add: requestOf_def afterUserMessage_def)
  show ?thesis
    using assms True r m q
    by (simp add: handleSendMessage_def Let_def andThen_def send_part replyOf_def
        afterUserMessage_def [symmetric])
       (simp add: afterUserMessage_def)
next
  case False
  have q: "requestOf env (trim (newMessage st)) (afterUserMessage env st) =
           requestOf env (trim (newMessage st)) st"
    by (simp add: requestOf_def afterUserMessage_def)
  show ?thesis
    using assms False q
    by (simp add: handleSendMessage_def Let_def andThen_def send_part replyOf_def
        afterUserMessage_def [symmetric])
       (simp add: afterUserMessage_def)
qed

lemma handleSendMessage_returns: "\<exists>calls st'. handleSendMessage env st = (calls, Inr st')"
  using handleSendMessage_refused [of st env] handleSendMessage_accepted [of st env]
  by (cases "sendRefused st") auto

lemma handleSendMessage_sends:
  "filter isSend (fst (handleSendMessage env st)) =
     (if sendRefused st then [] else [SendMessage (requestOf env (trim (newMessage st)) st)])"
proof (cases "sendRefused st")
  case True
  then show ?thesis by (simp add: handleSendMessage_refused)
next
  case False
  obtain calls st2 where
    r: "(if messages st = []
         then renameSessionBasedOnMessage env (trim (newMessage st)) (afterUserMessage env st)
         else ([], Inr (afterUserMessage env st))) = (calls, Inr st2)"
    and h: "handleSendMessage env st =
         (calls @ [SendMessage (requestOf env (trim (newMessage st)) st)],
          Inr (st2\<lparr>messages := messages st @
                       [userMessageOf env (trim (newMessage st)), replyOf env st],
                   isSending := False, isTyping := False\<rparr>))"
    using handleSendMessage_accepted [OF False, of env] by blast
  have "filter isSend calls = []"
    using r rename_shape [of env "trim (newMessage st)" "afterUserMessage env st"]
    by (auto split: if_splits)
  with h False show ?thesis by simp
qed

lemma handleSendMessage_messages:
  assumes "\<not> sendRefused st" and "handleSendMessage env st = (calls, Inr st')"
  shows "messages st' =
           messages st @ [userMessageOf env (trim (newMessage st)), replyOf env st]"
  using handleSendMessage_accepted [OF assms(1), of env] assms(2) by auto

text \<open>A turn either makes no rename request and keeps the flag, or makes exactly one,
  from an empty message list and an unset flag, and sets the flag.\<close>

lemma handleSendMessage_renames:
  assumes "handleSendMessage env st = (calls, Inr st')"
  shows "(filter isRename calls = [] \<and> hasRenamedSession st' = hasRenamedSession st)
       \<or> (length (filter isRename calls) = 1 \<and> messages st = [] \<and> \<not> hasRenamedSession st
           \<and> \<not> sendRefused st \<and> session st \<noteq> None \<and> hasRenamedSession st')"
proof (cases "sendRefused st")
  case True
  then show ?thesis using assms by (simp add: handleSendMessage_refused)
next
  case False
  obtain calls1 st2 where
    r: "(if messages st = []
         then renameSessionBasedOnMessage env (trim (newMessage st)) (afterUserMessage env st)
         else ([], Inr (afterUserMessage env st))) = (calls1, Inr st2)"
    and h: "handleSendMessage env st =
         (calls1 @ [SendMessage (requestOf env (trim (newMessage st)) st)],
          Inr (st2\<lparr>messages := messages st @
                       [userMessageOf env (trim (newMessage st)), replyOf env st],
                   isSending := False, isTyping := False\<rparr>))"
    using handleSendMessage_accepted [OF False, of env] by blast
  from h assms have c: "calls = calls1 @ [SendMessage (requestOf env (trim (newMessage st)) st)]"
    and s: "hasRenamedSession st' = hasRenamedSession st2" by auto
  show ?thesis
  proof (cases "messages st = []")
    case notempty: False
    with r have "calls1 = []" "st2 = afterUserMessage env st" by simp_all
    then show ?thesis using c s by (simp add: afterUserMessage_def)
  next
    case empty: True
    with r have rr: "renameSessionBasedOnMessage env (trim (newMessage st))
                       (afterUserMessage env st) = (calls1, Inr st2)"
      by simp
    show ?thesis
    proof (cases "calls1 = []")
      case True
      then have "st2 = afterUserMessage env st"
        using rr rename_shape [of env "trim (newMessage st)" "afterUserMessage env st"] by auto
      then show ?thesis using c s True by (simp add: afterUserMessage_def)
    next
      case nonempty: False
      then have "length (filter isRename calls1) = 1 \<and> hasRenamedSession st2
          \<and> session (afterUserMessage env st) \<noteq> None
          \<and> \<not> hasRenamedSession (afterUserMessage env st)"
        using rr rename_shape [of env "trim (newMessage st)" "afterUserMessage env st"] by auto
      then show ?thesis using c s empty False by (simp add: afterUserMessage_def)
    qed
  qed
qed

subsection \<open>Runs of a mounted page\<close>

lemma step_renames:
  assumes "\<not> isMount e"
  shows "(filter isRename (fst (step e st)) = []
          \<and> (hasRenamedSession st \<longrightarrow> hasRenamedSession (snd (step e st))))
       \<or> (length (filter isRename (fst (step e st))) = 1 \<and> \<not> hasRenamedSession st
           \<and> hasRenamedSession (snd (step e st)))"
proof (cases e)
  case (Change t)
  then show ?thesis by simp
next
  case (Load answer)
  then show ?thesis by (auto simp: loadSession_def split: sum.splits)
next
  case (Submit env)
  obtain calls st' where h: "handleSendMessage env st = (calls, Inr st')"
    using handleSendMessage_returns by blast
  from handleSendMessage_renames [OF h] h Submit show ?thesis by auto
next
  case (NewSession rnd createSession toString)
  then show ?thesis
    by (auto simp: createNewSession_def tryCatch_def Let_def split: sum.splits)
next
  case (Mount sid u)
  with assms show ?thesis by simp
qed

lemma run_Cons:
  "fst (run (e # es) st) = fst (step e st) @ fst (run es (snd (step e st)))"
  "snd (run (e # es) st) = snd (run es (snd (step e st)))"
  by (simp_all split: prod.splits)

lemma run_after_rename:
  "hasRenamedSession st \<Longrightarrow> \<forall>e \<in> set es. \<not> isMount e \<Longrightarrow>
     filter isRename (fst (run es st)) = [] \<and> hasRenamedSession (snd (run es st))"
proof (induction es arbitrary: st)
  case Nil
  then show ?case by simp
next
  case (Cons e es)
  obtain calls st' where s: "step e st = (calls, st')" by (cases "step e st")
  from Cons.prems have "\<not> isMount e" by simp
  with step_renames [of e st] Cons.prems(1) s
  have "filter isRename calls = []" and "hasRenamedSession st'" by auto
  with Cons.IH [of st'] Cons.prems(2) s show ?case by (simp add: run_Cons del: run.simps)
qed

lemma run_renames_once:
  "\<forall>e \<in> set es. \<not> isMount e \<Longrightarrow> length (filter isRename (fst (run es st))) \<le> 1"
proof (induction es arbitrary: st)
  case Nil
  then show ?case by simp
next
  case (Cons e es)
  obtain calls st' where s: "step e st = (calls, st')" by (cases "step e st")
  from Cons.prems have m: "\<not> isMount e" "\<forall>e \<in> set es. \<not> isMount e" by simp_all
  show ?case
  proof (cases "filter isRename calls = []")
    case True
    with Cons.IH [of st'] m s show ?thesis by (simp add: run_Cons del: run.simps)
  next
    case False
    with step_renames [OF m(1), of st] s
    have "length (filter isRename calls) = 1" and "hasRenamedSession st'" by auto
    with run_after_rename [of st' es] m s show ?thesis by (simp add: run_Cons del: run.simps)
  qed
qed

subsection \<open>The example turn\<close>

lemma example_accepted: "\<not> sendRefused examplePage"
  by (simp add: sendRefused_def examplePage_def trim_def isSpace_def)

lemma example_trim: "trim (newMessage examplePage) = ''How can we launch?''"
  by (simp add: examplePage_def trim_def isSpace_def)

lemma example_title:
  "generateSmartChatTitle rnd ''How can we launch?'' bc =
     (if contextIndustry bc = None then Some ''How Strategy''
      else generateSmartChatTitle rnd ''How can we launch?'' bc)"
proof (cases "contextIndustry bc")
  case None
  have a: "industryLoop (toLowerCase ''How can we launch?'') industries = None" by code_simp
  have b: "extractTopics ''How can we launch?'' = [startup]" by code_simp
  have c: "companyMatch ''How can we launch?'' = Some ''How''" by code_simp
  from None a b c show ?thesis
    by (simp add: generateSmartChatTitle_def extractIndustry_def topicTitle_def companyTitle_def)
next
  case (Some i)
  then show ?thesis by simp
qed

lemma example_request:
  "requestOf offlineEnvironment ''How can we launch?'' examplePage =
     \<lparr>message = ''How can we launch?'', session_id = Some 7,
      business_context = contextOfUser None\<rparr>"
  by (simp add: requestOf_def examplePage_def offlineEnvironment_def)

lemma example_first_turn:
  "handleSendMessage offlineEnvironment examplePage =
     ([UpdateSession 7 (Some ''How Strategy''),
       SendMessage \<lparr>message = ''How can we launch?'', session_id = Some 7,
                    business_context = contextOfUser None\<rparr>],
      Inr (examplePage
             \<lparr>session := Some (exampleSession\<lparr>session_name := Some ''How Strategy''\<rparr>),
              messages := [userMessageOf offlineEnvironment ''How can we launch?'',
                           errorMessageOf offlineEnvironment],
              newMessage := [], hasRenamedSession := True\<rparr>))"
proof -
  have c: "contextIndustry (Some (contextOfUser None)) = None" "contextIndustry None = None"
    by (simp_all add: contextIndustry_def contextOfUser_def)
  have t: "generateSmartChatTitle rnd ''How can we launch?'' (Some (contextOfUser None)) =
             Some ''How Strategy''"
    "generateSmartChatTitle rnd ''How can we launch?'' None = Some ''How Strategy''" for rnd
    using example_title [of rnd "Some (contextOfUser None)"] example_title [of rnd None] c
    by simp_all
  have r: "renameSessionBasedOnMessage offlineEnvironment ''How can we launch?''
             (afterUserMessage offlineEnvironment examplePage) =
           ([UpdateSession 7 (Some ''How Strategy'')],
            Inr ((afterUserMessage offlineEnvironment examplePage)
                   \<lparr>session := Some (exampleSession\<lparr>session_name := Some ''How Strategy''\<rparr>),
                    hasRenamedSession := True\<rparr>))"
    by (simp add: renameSessionBasedOnMessage_def tryCatch_def renameTry_def renameCatch_def
        afterUserMessage_def examplePage_def t)
       (simp add: offlineEnvironment_def exampleSession_def)
  have p: "replyOf offlineEnvironment examplePage = errorMessageOf offlineEnvironment"
    by (simp add: replyOf_def offlineEnvironment_def)
  have m: "messages examplePage = []" by (simp add: examplePage_def)
  from handleSendMessage_accepted [OF example_accepted, of offlineEnvironment]
  show ?thesis
    by (simp add: example_trim r example_request p m)
       (simp add: afterUserMessage_def examplePage_def)
qed


subsection \<open>A failed completion call\<close>

text \<open>
  Claim C1, as stated, fails for a malformed answer: an answer that resolves without a
  \<^verbatim>\<open>response\<close> property is not detected. The turn appends an assistant message whose
  content is \<^verbatim>\<open>undefined\<close>, not the fallback text.
\<close>

theorem malformed_answer_appended_without_fallback:
  "\<exists>calls st'. handleSendMessage malformedEnvironment examplePage = (calls, Inr st')
     \<and> map role (messages st') = [UserRole, AssistantRole]
     \<and> map content (messages st') = [Some ''How can we launch?'', None]"
proof -
  obtain calls st' where h: "handleSendMessage malformedEnvironment examplePage = (calls, Inr st')"
    using handleSendMessage_returns by blast
  have r: "replyOf malformedEnvironment examplePage =
             aiMessageOf malformedEnvironment \<lparr>response = None, response_tools_used = None\<rparr>"
    by (simp add: replyOf_def malformedEnvironment_def)
  have e: "messages examplePage = []" by (simp add: examplePage_def)
  from handleSendMessage_messages [OF example_accepted h] r e h show ?thesis
    by (simp add: example_trim userMessageOf_def aiMessageOf_def)
qed

text \<open>
  Claim C1, amended. In every send turn no exception escapes \<^verbatim>\<open>handleSendMessage\<close>
  and exactly one new assistant-role message is appended to the conversation, after the
  user's message. When the completion call fails by a rejected promise (timeout, quota,
  error status), or resolves to \<^verbatim>\<open>null\<close> or \<^verbatim>\<open>undefined\<close>, the content of that
  message is the literal fallback text. An answer of any other shape is appended as it
  reads: the content is its \<^verbatim>\<open>response\<close> property, \<^verbatim>\<open>undefined\<close> when a
  malformed answer has none.
\<close>

theorem failed_send_appends_fallback:
  assumes "\<not> sendRefused st"
  shows "\<exists>calls st'. handleSendMessage env st = (calls, Inr st')
     \<and> length (filter (\<lambda>m. role m = AssistantRole) (messages st')) =
          length (filter (\<lambda>m. role m = AssistantRole) (messages st)) + 1
     \<and> ((\<exists>err. sendMessage env (requestOf env (trim (newMessage st)) st) = Inl err)
          \<or> sendMessage env (requestOf env (trim (newMessage st)) st) = Inr None
        \<longrightarrow> messages st' =
              messages st @ [userMessageOf env (trim (newMessage st)), errorMessageOf env])
     \<and> (\<forall>resp. sendMessage env (requestOf env (trim (newMessage st)) st) = Inr (Some resp)
        \<longrightarrow> messages st' =
              messages st @ [userMessageOf env (trim (newMessage st)), aiMessageOf env resp]
            \<and> content (aiMessageOf env resp) = response resp)
     \<and> role (userMessageOf env (trim (newMessage st))) = UserRole
     \<and> role (errorMessageOf env) = AssistantRole
     \<and> content (errorMessageOf env) =
          Some ''Sorry, I encountered an error processing your message. Please try again.''"
proof -
  obtain calls st' where h: "handleSendMessage env st = (calls, Inr st')"
    using handleSendMessage_returns by blast
  have m: "messages st' =
             messages st @ [userMessageOf env (trim (newMessage st)), replyOf env st]"
    using handleSendMessage_messages [OF assms h] .
  have u: "role (userMessageOf env (trim (newMessage st))) = UserRole"
    by (simp add: userMessageOf_def)
  have r: "role (replyOf env st) = AssistantRole"
    by (simp add: replyOf_def errorMessageOf_def aiMessageOf_def split: sum.splits option.splits)
  have c: "length (filter (\<lambda>m. role m = AssistantRole) (messages st')) =
          length (filter (\<lambda>m. role m = AssistantRole) (messages st)) + 1"
    using m u r by simp
  have f: "replyOf env st = errorMessageOf env"
    if "(\<exists>err. sendMessage env (requestOf env (trim (newMessage st)) st) = Inl err)
          \<or> sendMessage env (requestOf env (trim (newMessage st)) st) = Inr None"
    using that by (auto simp: replyOf_def)
  have g: "replyOf env st = aiMessageOf env resp"
    if "sendMessage env (requestOf env (trim (newMessage st)) st) = Inr (Some resp)" for resp
    using that by (simp add: replyOf_def)
  have k: "content (aiMessageOf env resp) = response resp" for resp
    by (simp add: aiMessageOf_def)
  have e: "role (errorMessageOf env) = AssistantRole"
    "content (errorMessageOf env) =
          Some ''Sorry, I encountered an error processing your message. Please try again.''"
    by (simp_all add: errorMessageOf_def fallbackText_def)
  from h c m f g k u e show ?thesis by (intro exI [of _ calls] exI [of _ st']) simp
qed

theorem failed_send_appends_fallback_witness:
  "\<not> sendRefused examplePage
   \<and> sendMessage offlineEnvironment
        (requestOf offlineEnvironment (trim (newMessage examplePage)) examplePage)
       = Inl (JsError ''timeout of 30000ms exceeded'')
   \<and> (\<exists>calls st'. handleSendMessage offlineEnvironment examplePage = (calls, Inr st')
        \<and> map content (messages st') =
            [Some ''How can we launch?'',
             Some ''Sorry, I encountered an error processing your message. Please try again.'']
        \<and> map role (messages st') = [UserRole, AssistantRole])"
proof -
  have s: "sendMessage offlineEnvironment
        (requestOf offlineEnvironment (trim (newMessage examplePage)) examplePage)
       = Inl (JsError ''timeout of 30000ms exceeded'')"
    by (simp add: offlineEnvironment_def)
  have e: "messages examplePage = []" by (simp add: examplePage_def)
  from failed_send_appends_fallback [OF example_accepted, of offlineEnvironment]
    example_accepted s
  show ?thesis
    by (auto simp: e example_trim userMessageOf_def errorMessageOf_def fallbackText_def)
qed

subsection \<open>The rename step\<close>

text \<open>
  Claim C3, as stated, fails: the flag \<^verbatim>\<open>hasRenamedSession\<close> and the message list are
  state of the mounted component. A first turn whose send fails renames session 7; when the
  page is mounted again and the backend holds no message of that session, the next first
  message renames session 7 a second time.
\<close>

theorem remounted_page_renames_again:
  "filter isRename
     (fst (run [Submit offlineEnvironment,
                Mount (Some ''7'') None, Load (Inr (exampleSession, [])),
                Change '' How can we launch?  '', Submit offlineEnvironment] examplePage)) =
   [UpdateSession 7 (Some ''How Strategy''), UpdateSession 7 (Some ''How Strategy'')]"
proof -
  let ?st1 = "examplePage
             \<lparr>session := Some (exampleSession\<lparr>session_name := Some ''How Strategy''\<rparr>),
              messages := [userMessageOf offlineEnvironment ''How can we launch?'',
                           errorMessageOf offlineEnvironment],
              newMessage := [], hasRenamedSession := True\<rparr>"
  have s1: "fst (step (Submit offlineEnvironment) examplePage) =
              fst (handleSendMessage offlineEnvironment examplePage)"
    "snd (step (Submit offlineEnvironment) examplePage) = ?st1"
    by (simp_all add: example_first_turn)
  have s2: "snd (run [Mount (Some ''7'') None, Load (Inr (exampleSession, [])),
                      Change '' How can we launch?  ''] ?st1) = examplePage"
    "fst (run [Mount (Some ''7'') None, Load (Inr (exampleSession, [])),
                      Change '' How can we launch?  ''] ?st1) = []"
    by (simp_all add: initialChatPage_def loadSession_def examplePage_def)
  have a: "fst (run [Mount (Some ''7'') None, Load (Inr (exampleSession, [])),
                Change '' How can we launch?  '', Submit offlineEnvironment] ?st1) =
           fst (handleSendMessage offlineEnvironment examplePage)"
  proof -
    have "fst (run [Mount (Some ''7'') None, Load (Inr (exampleSession, [])),
                Change '' How can we launch?  '', Submit offlineEnvironment] ?st1) =
          fst (run [Mount (Some ''7'') None, Load (Inr (exampleSession, [])),
                      Change '' How can we launch?  ''] ?st1)
          @ fst (step (Submit offlineEnvironment)
               (snd (run [Mount (Some ''7'') None, Load (Inr (exampleSession, [])),
                      Change '' How can we launch?  ''] ?st1)))"
      by (simp add: run_Cons del: run.simps(2) step.simps(2))
    then show ?thesis by (simp only: s2 s1 append_Nil)
  qed
  have "fst (run [Submit offlineEnvironment,
                Mount (Some ''7'') None, Load (Inr (exampleSession, [])),
                Change '' How can we launch?  '', Submit offlineEnvironment] examplePage) =
        fst (handleSendMessage offlineEnvironment examplePage)
        @ fst (handleSendMessage offlineEnvironment examplePage)"
    by (simp only: run_Cons(1) [of "Submit offlineEnvironment"] s1 a)
  then show ?thesis by (simp add: example_first_turn)
qed

text \<open>
  Claim C3, amended. While a chat page stays mounted, whatever is typed, submitted or
  loaded: the rename request is made at most once; once the flag is set no rename request
  is made; and a turn makes a rename request only when the message list is empty and the
  flag is unset when the message is sent, it makes exactly one, and it leaves the flag set
  and the message list non-empty, so that no later turn of the mounted page renames again.
\<close>

theorem rename_at_most_once:
  assumes "\<forall>e \<in> set events. \<not> isMount e"
  shows "length (filter isRename (fst (run events st))) \<le> 1
   \<and> (hasRenamedSession st \<longrightarrow> filter isRename (fst (run events st)) = [])
   \<and> (filter isRename (fst (handleSendMessage env st)) \<noteq> [] \<longrightarrow>
        messages st = [] \<and> \<not> hasRenamedSession st
        \<and> length (filter isRename (fst (handleSendMessage env st))) = 1
        \<and> (\<exists>st'. snd (handleSendMessage env st) = Inr st' \<and> hasRenamedSession st'
               \<and> messages st' \<noteq> []
               \<and> filter isRename (fst (run events st')) = []))"
proof -
  obtain calls st' where h: "handleSendMessage env st = (calls, Inr st')"
    using handleSendMessage_returns by blast
  have "messages st = [] \<and> \<not> hasRenamedSession st \<and> length (filter isRename calls) = 1
        \<and> hasRenamedSession st' \<and> messages st' \<noteq> []
        \<and> filter isRename (fst (run events st')) = []"
    if n: "filter isRename calls \<noteq> []"
  proof -
    from handleSendMessage_renames [OF h] n
    have x: "length (filter isRename calls) = 1" "messages st = []" "\<not> hasRenamedSession st"
      "\<not> sendRefused st" "hasRenamedSession st'" by auto
    have "messages st' \<noteq> []" using handleSendMessage_messages [OF x(4) h] by simp
    then show ?thesis using x run_after_rename [of st' events] assms by simp
  qed
  then show ?thesis
    using h run_renames_once [OF assms, of st] run_after_rename [of st events] assms
    by simp
qed

theorem rename_at_most_once_witness:
  "filter isRename (fst (handleSendMessage offlineEnvironment examplePage)) =
     [UpdateSession 7 (Some ''How Strategy'')]
   \<and> messages examplePage = [] \<and> \<not> hasRenamedSession examplePage
   \<and> filter isRename
       (fst (run [Submit offlineEnvironment, Change ''What next?'', Submit onlineEnvironment,
                  Load (Inr (exampleSession, [])), Change ''And then?'',
                  Submit onlineEnvironment]
               examplePage)) = [UpdateSession 7 (Some ''How Strategy'')]"
proof -
  let ?st' = "examplePage
             \<lparr>session := Some (exampleSession\<lparr>session_name := Some ''How Strategy''\<rparr>),
              messages := [userMessageOf offlineEnvironment ''How can we launch?'',
                           errorMessageOf offlineEnvironment],
              newMessage := [], hasRenamedSession := True\<rparr>"
  let ?rest = "[Change ''What next?'', Submit onlineEnvironment,
                  Load (Inr (exampleSession, [])), Change ''And then?'',
                  Submit onlineEnvironment]"
  have n: "\<forall>e \<in> set ?rest. \<not> isMount e" by simp
  have a: "filter isRename (fst (handleSendMessage offlineEnvironment examplePage)) =
     [UpdateSession 7 (Some ''How Strategy'')]"
    by (simp add: example_first_turn)
  have b: "snd (handleSendMessage offlineEnvironment examplePage) = Inr ?st'"
    by (simp add: example_first_turn)
  from rename_at_most_once [OF n, of examplePage offlineEnvironment] a b
  have c: "filter isRename (fst (run ?rest ?st')) = []" by simp
  have "fst (run (Submit offlineEnvironment # ?rest) examplePage) =
          fst (handleSendMessage offlineEnvironment examplePage) @ fst (run ?rest ?st')"
    by (simp only: run_Cons step.simps example_first_turn prod.case sum.case fst_conv snd_conv)
  with a c show ?thesis by (simp add: examplePage_def)
qed

text \<open>The answer to the session update has no part in the request, the reply or the
  user's message of a turn.\<close>

lemma requestOf_updateSession:
  "requestOf (env\<lparr>updateSession := other\<rparr>) c st = requestOf env c st"
  by (simp add: requestOf_def)

lemma replyOf_updateSession:
  "replyOf (env\<lparr>updateSession := other\<rparr>) st = replyOf env st"
  by (simp add: replyOf_def requestOf_def errorMessageOf_def aiMessageOf_def
      split: sum.splits option.splits)

lemma userMessageOf_updateSession:
  "userMessageOf (env\<lparr>updateSession := other\<rparr>) c = userMessageOf env c"
  by (simp add: userMessageOf_def)

text \<open>
  Claim C9. On the first message of a session, when the rename step fails (the
  session-update call is rejected), no exception escapes
  \<^verbatim>\<open>renameSessionBasedOnMessage\<close>: the error is caught, the local session name is
  still updated (to the non-empty title computed without business context, for every
  double that \<^verbatim>\<open>Math.random()\<close> may return) and the flag is set; the turn goes on to send the message, and it
  sends the same request and ends with the same messages as under any other answer to the
  session update, a successful one included.
\<close>

theorem rename_failure_is_swallowed:
  assumes "\<not> sendRefused st" and "messages st = []"
    and "session st = Some s" and "\<not> hasRenamedSession st"
    and "updateSession env (session_ident s)
           (generateSmartChatTitle (random_title env) (trim (newMessage st))
              (Some (contextOfUser (user st)))) = Inl err"
    and "isSample (random_fallback env)"
  shows "\<exists>title st'. title \<noteq> []
     \<and> generateSmartChatTitle (random_fallback env) (trim (newMessage st)) None = Some title
     \<and> renameSessionBasedOnMessage env (trim (newMessage st)) (afterUserMessage env st) =
         ([UpdateSession (session_ident s)
             (generateSmartChatTitle (random_title env) (trim (newMessage st))
                (Some (contextOfUser (user st))))],
          Inr ((afterUserMessage env st)
                 \<lparr>session := Some (s\<lparr>session_name := Some title\<rparr>),
                  hasRenamedSession := True\<rparr>))
     \<and> handleSendMessage env st =
         ([UpdateSession (session_ident s)
             (generateSmartChatTitle (random_title env) (trim (newMessage st))
                (Some (contextOfUser (user st)))),
           SendMessage (requestOf env (trim (newMessage st)) st)], Inr st')
     \<and> session st' = Some (s\<lparr>session_name := Some title\<rparr>) \<and> hasRenamedSession st'
     \<and> messages st' = [userMessageOf env (trim (newMessage st)), replyOf env st]
     \<and> (\<forall>other. \<exists>calls st''.
           handleSendMessage (env\<lparr>updateSession := other\<rparr>) st = (calls, Inr st'')
           \<and> filter isSend calls = [SendMessage (requestOf env (trim (newMessage st)) st)]
           \<and> messages st'' = messages st')"
proof -
  let ?c = "trim (newMessage st)"
  let ?a = "afterUserMessage env st"
  let ?t = "generateSmartChatTitle (random_title env) ?c (Some (contextOfUser (user st)))"
  obtain title where t: "generateSmartChatTitle (random_fallback env) ?c None = Some title"
    and ne: "title \<noteq> []"
    using generateSmartChatTitle_no_context [OF assms(6)] by blast
  let ?r = "?a\<lparr>session := Some (s\<lparr>session_name := Some title\<rparr>), hasRenamedSession := True\<rparr>"
  have rn: "renameSessionBasedOnMessage env ?c ?a =
              ([UpdateSession (session_ident s) ?t], Inr ?r)"
    using assms(3,4,5) t
    by (simp add: renameSessionBasedOnMessage_def tryCatch_def renameTry_def renameCatch_def
        afterUserMessage_def)
  obtain calls st2 where
    r: "(if messages st = [] then renameSessionBasedOnMessage env ?c ?a else ([], Inr ?a)) =
          (calls, Inr st2)"
    and h: "handleSendMessage env st = (calls @ [SendMessage (requestOf env ?c st)],
          Inr (st2\<lparr>messages := messages st @ [userMessageOf env ?c, replyOf env st],
                   isSending := False, isTyping := False\<rparr>))"
    using handleSendMessage_accepted [OF assms(1), of env] by blast
  from r rn assms(2) have c: "calls = [UpdateSession (session_ident s) ?t]" and s2: "st2 = ?r"
    by simp_all
  let ?st' = "?r\<lparr>messages := messages st @ [userMessageOf env ?c, replyOf env st],
                   isSending := False, isTyping := False\<rparr>"
  have h': "handleSendMessage env st =
      ([UpdateSession (session_ident s) ?t, SendMessage (requestOf env ?c st)], Inr ?st')"
    using h c s2 by simp
  have o: "\<exists>calls st''. handleSendMessage (env\<lparr>updateSession := other\<rparr>) st = (calls, Inr st'')
           \<and> filter isSend calls = [SendMessage (requestOf env ?c st)]
           \<and> messages st'' = messages ?st'" for other
  proof -
    obtain calls st'' where
      x: "handleSendMessage (env\<lparr>updateSession := other\<rparr>) st = (calls, Inr st'')"
      using handleSendMessage_returns by blast
    have "filter isSend calls = [SendMessage (requestOf env ?c st)]"
      using handleSendMessage_sends [of "env\<lparr>updateSession := other\<rparr>" st] x assms(1)
      by (simp add: requestOf_updateSession)
    moreover have "messages st'' = messages ?st'"
      using handleSendMessage_messages [OF assms(1) x]
      by (simp add: replyOf_updateSession userMessageOf_updateSession)
    ultimately show ?thesis using x by blast
  qed
  show ?thesis
    using ne t rn h' o assms(2) by (intro exI [of _ title] exI [of _ ?st']) simp
qed

theorem rename_failure_is_swallowed_witness:
  "\<not> sendRefused examplePage \<and> messages examplePage = []
   \<and> session examplePage = Some exampleSession \<and> \<not> hasRenamedSession examplePage
   \<and> updateSession offlineEnvironment 7 (Some ''How Strategy'') = Inl (JsError ''Network Error'')
   \<and> fst (handleSendMessage offlineEnvironment examplePage) =
       [UpdateSession 7 (Some ''How Strategy''),
        SendMessage \<lparr>message = ''How can we launch?'', session_id = Some 7,
                     business_context = contextOfUser None\<rparr>]
   \<and> (\<exists>calls st''. handleSendMessage onlineEnvironment examplePage = (calls, Inr st'')
        \<and> filter isSend calls =
            [SendMessage \<lparr>message = ''How can we launch?'', session_id = Some 7,
                          business_context = contextOfUser None\<rparr>])"
proof -
  have m: "messages examplePage = []" and s: "session examplePage = Some exampleSession"
    and n: "\<not> hasRenamedSession examplePage" and u: "user examplePage = None"
    by (simp_all add: examplePage_def)
  have t: "generateSmartChatTitle (random_title offlineEnvironment) ''How can we launch?''
            (Some (contextOfUser (user examplePage))) = Some ''How Strategy''"
    using example_title [of "random_title offlineEnvironment" "Some (contextOfUser None)"]
    by (simp add: u contextIndustry_def contextOfUser_def)
  have i: "session_ident exampleSession = 7" by (simp add: exampleSession_def)
  have f: "updateSession offlineEnvironment (session_ident exampleSession)
           (generateSmartChatTitle (random_title offlineEnvironment)
              (trim (newMessage examplePage))
              (Some (contextOfUser (user examplePage)))) = Inl (JsError ''Network Error'')"
    by (simp add: offlineEnvironment_def)
  have r: "isSample (random_fallback offlineEnvironment)"
    using exact_product_example by (simp add: offlineEnvironment_def)
  have u7: "updateSession offlineEnvironment 7 (Some ''How Strategy'') =
              Inl (JsError ''Network Error'')"
    by (simp add: offlineEnvironment_def)
  obtain calls st'' where
    x: "handleSendMessage onlineEnvironment examplePage = (calls, Inr st'')"
    using handleSendMessage_returns by blast
  have y: "filter isSend calls =
             [SendMessage (requestOf onlineEnvironment ''How can we launch?'' examplePage)]"
    using handleSendMessage_sends [of onlineEnvironment examplePage] x example_accepted
    by (simp add: example_trim)
  have z: "requestOf onlineEnvironment ''How can we launch?'' examplePage =
           requestOf offlineEnvironment ''How can we launch?'' examplePage"
    by (simp add: requestOf_def onlineEnvironment_def)
  from rename_failure_is_swallowed [OF example_accepted m s n f r]
  show ?thesis
    using example_accepted m s n u7 x y z by (auto simp: t i example_request example_trim)
qed

subsection \<open>The guard of the form\<close>

text \<open>
  Claim C10. In every state of the chat page, submitting the form is a no-op (the state is
  unchanged, so no message is appended, and no request is made) whenever the trimmed
  input is empty, which is the case exactly when the input is whitespace only (the
  characters that \<^verbatim>\<open>trim\<close> removes, the no-break space among them), or a send is in
  flight, or there is no session id. Consequently every message that is sent is the
  trimmed input, is non-empty and has a character that is not whitespace.
\<close>

theorem refused_submit_is_noop:
  "(trim (newMessage st) = [] \<or> isSending st \<or> sessionId st = None \<or> sessionId st = Some []
      \<longrightarrow> handleSendMessage env st = ([], Inr st))
   \<and> (trim (newMessage st) = [] \<longleftrightarrow> (\<forall>c \<in> set (newMessage st). isSpace c))
   \<and> (\<forall>request. SendMessage request \<in> set (fst (handleSendMessage env st)) \<longrightarrow>
         message request = trim (newMessage st) \<and> message request \<noteq> []
         \<and> (\<exists>c \<in> set (message request). \<not> isSpace c))"
proof -
  have a: "trim (newMessage st) = [] \<or> isSending st \<or> sessionId st = None
             \<or> sessionId st = Some []
      \<longrightarrow> handleSendMessage env st = ([], Inr st)"
    using handleSendMessage_refused [of st env] by (simp add: sendRefused_def)
  have c: "message request = trim (newMessage st) \<and> message request \<noteq> []
         \<and> (\<exists>c \<in> set (message request). \<not> isSpace c)"
    if "SendMessage request \<in> set (fst (handleSendMessage env st))" for request
  proof -
    from that have "SendMessage request \<in> set (filter isSend (fst (handleSendMessage env st)))"
      by simp
    then have n: "\<not> sendRefused st"
      and r: "request = requestOf env (trim (newMessage st)) st"
      by (auto simp: handleSendMessage_sends split: if_splits)
    from n have "trim (newMessage st) \<noteq> []" by (simp add: sendRefused_def)
    then show ?thesis using r trim_not_whitespace [of "newMessage st"]
      by (simp add: requestOf_def)
  qed
  from a c trim_empty_iff [of "newMessage st"] show ?thesis by blast
qed

theorem refused_submit_is_noop_witness:
  "trim (newMessage (examplePage\<lparr>newMessage := [CHR 0xA0, CHR 0x09, CHR '' '']\<rparr>)) = []
   \<and> handleSendMessage onlineEnvironment
        (examplePage\<lparr>newMessage := [CHR 0xA0, CHR 0x09, CHR '' '']\<rparr>)
       = ([], Inr (examplePage\<lparr>newMessage := [CHR 0xA0, CHR 0x09, CHR '' '']\<rparr>))
   \<and> handleSendMessage onlineEnvironment (examplePage\<lparr>isSending := True\<rparr>)
       = ([], Inr (examplePage\<lparr>isSending := True\<rparr>))
   \<and> handleSendMessage onlineEnvironment (examplePage\<lparr>sessionId := None\<rparr>)
       = ([], Inr (examplePage\<lparr>sessionId := None\<rparr>))"
proof -
  have t: "trim (newMessage (examplePage\<lparr>newMessage := [CHR 0xA0, CHR 0x09, CHR '' '']\<rparr>)) = []"
    by (simp add: trim_def isSpace_def)
  from t refused_submit_is_noop
           [of "examplePage\<lparr>newMessage := [CHR 0xA0, CHR 0x09, CHR '' '']\<rparr>" onlineEnvironment]
    refused_submit_is_noop [of "examplePage\<lparr>isSending := True\<rparr>" onlineEnvironment]
    refused_submit_is_noop [of "examplePage\<lparr>sessionId := None\<rparr>" onlineEnvironment]
  show ?thesis by simp
qed


end
